theory Spec2Isabelle
  imports Complex_Main "HOL-Library.Word"
begin

section \<open>The training session of CNTK (Source/CNTKv2LibraryDll/TrainingSession.cpp)\<close>

text \<open>
  A shallow embedding of \<^verbatim>\<open>TrainingSession.cpp\<close>. The session drives collaborators whose
  code is outside this file (the trainer, the minibatch sources, the file utilities, the
  overridable notification hooks): they are parameters of the model, collected in a record
  of operations, and their objects live in an explicit world that every function takes and
  returns. Exceptions raised by the session's own code are values of type \<open>error\<close>; a loop
  that the code does not bound is a partial function into \<open>option\<close>, where \<open>None\<close> means
  that the loop does not return.
\<close>

subsection \<open>Basic types\<close>

text \<open>\<^verbatim>\<open>size_t\<close> on the 64-bit platforms CNTK builds for.\<close>
type_synonym size_t = "64 word"

text \<open>\<^verbatim>\<open>std::wstring\<close>: a sequence of characters.\<close>
type_synonym wstring = string

type_synonym DeviceDescriptor = nat
type_synonym Variable = nat
type_synonym StreamInformation = nat
type_synonym ProgressWriterPtr = nat

text \<open>A shared pointer to a minibatch source: \<open>None\<close> is the null pointer, \<open>Some p\<close> the
  address of a source object in the world.\<close>
type_synonym MinibatchSourcePtr = "nat option"

text \<open>\<^verbatim>\<open>ValuePtr\<close>: \<open>None\<close> is the null pointer, \<open>Some h\<close> a handle of a value object.\<close>
type_synonym ValuePtr = "nat option"

text \<open>\<^verbatim>\<open>MinibatchSizeSchedule\<close>, read with \<^verbatim>\<open>operator[]\<close> at a sample count.\<close>
type_synonym MinibatchSizeSchedule = "size_t \<Rightarrow> size_t"

text \<open>\<^verbatim>\<open>InvalidArgument(...)\<close> and \<^verbatim>\<open>RuntimeError(...)\<close> throw; the message is kept.\<close>
datatype error = InvalidArgument string | RuntimeError string

fun is_InvalidArgument :: "error + 'a \<Rightarrow> bool" where
  "is_InvalidArgument (Inl (InvalidArgument m)) = True"
| "is_InvalidArgument (Inl (RuntimeError m)) = False"
| "is_InvalidArgument (Inr x) = False"

fun is_RuntimeError :: "error + 'a \<Rightarrow> bool" where
  "is_RuntimeError (Inl (RuntimeError m)) = True"
| "is_RuntimeError (Inl (InvalidArgument m)) = False"
| "is_RuntimeError (Inr x) = False"

subsection \<open>SessionConfig\<close>

text \<open>The members of \<^verbatim>\<open>SessionConfig\<close> that the code reads and writes. An
  \<^verbatim>\<open>unordered_map\<close> is a list of key-value pairs with distinct keys.\<close>

record SessionConfig =
  m_withCheckpointing :: bool
  m_withCrossValidation :: bool
  m_withProgressPrinting :: bool
  m_mbSource :: nat
  m_mbSizeSchedule :: MinibatchSizeSchedule
  m_inputVarToStream :: "(Variable \<times> StreamInformation) list"
  m_maxNumTrainingSamples :: size_t
  m_crossValidationSchedule :: MinibatchSizeSchedule
  m_checkPointFileName :: wstring
  m_checkpointFrequencyInSamples :: size_t
  m_restoreFromCheckpointIfExists :: bool
  m_preserveAllCheckpoints :: bool
  m_crossValidationSource :: MinibatchSourcePtr
  m_crossValidationFrequencyInSamples :: size_t
  m_progressFrequencyInSamples :: size_t
  m_progressWriters :: "ProgressWriterPtr list"

text \<open>The constructor (lines 25-47). It throws on a null training source, so the member
  \<open>m_mbSource\<close> of a configuration is never null: the record holds the address of the
  source. The members that the constructor does not initialise are given here the value of
  an empty string, zero, false or null; the session reads them only behind the
  corresponding \<open>m_with...\<close> flag or an emptiness test of the file name.\<close>

definition SessionConfig_ctor ::
  "MinibatchSourcePtr \<Rightarrow> MinibatchSizeSchedule \<Rightarrow> (Variable \<times> StreamInformation) list \<Rightarrow>
   size_t \<Rightarrow> error + SessionConfig" where
  "SessionConfig_ctor trainingSource minibatchSizeSchedule inputVarToStream maxNumTrainingSamples =
    (case trainingSource of
       None \<Rightarrow> Inl (InvalidArgument ''Training source must not be null.'')
     | Some source \<Rightarrow>
         if maxNumTrainingSamples = 0
           then Inl (InvalidArgument ''maxNumTrainingSamples must not be zero.'')
         else if inputVarToStream = []
           then Inl (InvalidArgument ''inputVarToStream mapping must not be empty.'')
         else Inr \<lparr> m_withCheckpointing = False,
                    m_withCrossValidation = False,
                    m_withProgressPrinting = False,
                    m_mbSource = source,
                    m_mbSizeSchedule = minibatchSizeSchedule,
                    m_inputVarToStream = inputVarToStream,
                    m_maxNumTrainingSamples = maxNumTrainingSamples,
                    m_crossValidationSchedule = minibatchSizeSchedule,
                    m_checkPointFileName = [],
                    m_checkpointFrequencyInSamples = 0,
                    m_restoreFromCheckpointIfExists = False,
                    m_preserveAllCheckpoints = False,
                    m_crossValidationSource = None,
                    m_crossValidationFrequencyInSamples = 0,
                    m_progressFrequencyInSamples = 0,
                    m_progressWriters = [] \<rparr>)"

text \<open>\<^verbatim>\<open>std::numeric_limits<size_t>::max()\<close>.\<close>
definition size_t_max :: size_t where
  "size_t_max = - 1"

text \<open>\<^verbatim>\<open>SessionConfig::Checkpointing\<close> (lines 49-73). The checks come in the order of the
  source; with an empty file name that passes them the frequency is overwritten with 0.\<close>

definition Checkpointing ::
  "wstring \<Rightarrow> size_t \<Rightarrow> bool \<Rightarrow> bool \<Rightarrow> SessionConfig \<Rightarrow> error + SessionConfig" where
  "Checkpointing checkPointFileName checkpointFrequencyInSamples restoreFromCheckpointIfExists
      preserveAllCheckpoints c =
    (if m_withCheckpointing c
       then Inl (RuntimeError ''Checkpointing configuration has already been specified.'')
     else if checkPointFileName = [] \<and> checkpointFrequencyInSamples \<noteq> 0
              \<and> checkpointFrequencyInSamples \<noteq> size_t_max
       then Inl (InvalidArgument
         ''Checkpoint file name is not allowed to be empty if checkpoint frequency is non zero.'')
     else if checkPointFileName = [] \<and> preserveAllCheckpoints
       then Inl (InvalidArgument
         ''Checkpoint file name is not allowed to be empty if 'preserve all checkpoints' is specified.'')
     else Inr (c \<lparr> m_checkPointFileName := checkPointFileName,
                  m_preserveAllCheckpoints := preserveAllCheckpoints,
                  m_restoreFromCheckpointIfExists := restoreFromCheckpointIfExists,
                  m_checkpointFrequencyInSamples :=
                    (if checkPointFileName = [] then 0 else checkpointFrequencyInSamples),
                  m_withCheckpointing := True \<rparr>))"

text \<open>\<^verbatim>\<open>SessionConfig::CrossValidation\<close> (lines 75-88).\<close>

definition CrossValidation ::
  "MinibatchSourcePtr \<Rightarrow> MinibatchSizeSchedule \<Rightarrow> size_t \<Rightarrow> SessionConfig \<Rightarrow>
   error + SessionConfig" where
  "CrossValidation crossValidationSource crossValidationSchedule
      crossValidationFrequencyInSamples c =
    (if m_withCrossValidation c
       then Inl (RuntimeError ''Cross validation configuration has already been specified.'')
     else Inr (c \<lparr> m_crossValidationSource := crossValidationSource,
                  m_crossValidationSchedule := crossValidationSchedule,
                  m_crossValidationFrequencyInSamples := crossValidationFrequencyInSamples,
                  m_withCrossValidation := True \<rparr>))"

text \<open>\<^verbatim>\<open>SessionConfig::ProgressPrinting\<close> (lines 90-99).\<close>

definition ProgressPrinting ::
  "ProgressWriterPtr list \<Rightarrow> size_t \<Rightarrow> SessionConfig \<Rightarrow> error + SessionConfig" where
  "ProgressPrinting progressWriters progressFrequency c =
    (if m_withProgressPrinting c
       then Inl (RuntimeError ''Progress printing configuration has already been specified.'')
     else Inr (c \<lparr> m_progressFrequencyInSamples := progressFrequency,
                  m_progressWriters := progressWriters,
                  m_withProgressPrinting := True \<rparr>))"

text \<open>A configuration as the constructor builds it, for the concrete runs below: training
  source at address 0, one model input 0 read from stream 0, a constant minibatch size.\<close>

definition example_config :: "size_t \<Rightarrow> size_t \<Rightarrow> SessionConfig" where
  "example_config mbSize maxSamples =
     \<lparr> m_withCheckpointing = False,
       m_withCrossValidation = False,
       m_withProgressPrinting = False,
       m_mbSource = 0,
       m_mbSizeSchedule = (\<lambda>_. mbSize),
       m_inputVarToStream = [(0, 0)],
       m_maxNumTrainingSamples = maxSamples,
       m_crossValidationSchedule = (\<lambda>_. mbSize),
       m_checkPointFileName = [],
       m_checkpointFrequencyInSamples = 0,
       m_restoreFromCheckpointIfExists = False,
       m_preserveAllCheckpoints = False,
       m_crossValidationSource = None,
       m_crossValidationFrequencyInSamples = 0,
       m_progressFrequencyInSamples = 0,
       m_progressWriters = [] \<rparr>"

subsection \<open>The collaborators and the world\<close>

text \<open>\<^verbatim>\<open>Dictionary\<close>, the state bundle of checkpoints: keys to values, where a value may be
  a dictionary again.\<close>

datatype DictionaryValue = OpaqueValue nat | DictValue "(wstring \<times> DictionaryValue) list"

type_synonym Dictionary = "(wstring \<times> DictionaryValue) list"

text \<open>\<^verbatim>\<open>MinibatchData\<close>; the session reads only \<open>data\<close>. A default-constructed
  \<^verbatim>\<open>MinibatchData\<close> holds a null \<open>data\<close> pointer and zero counts.\<close>

record MinibatchData =
  data :: ValuePtr
  numberOfSequences :: size_t
  numberOfSamples :: size_t

definition default_MinibatchData :: MinibatchData where
  "default_MinibatchData = \<lparr> data = None, numberOfSequences = 0, numberOfSamples = 0 \<rparr>"

text \<open>\<^verbatim>\<open>unordered_map<Variable, ValuePtr>\<close> and \<^verbatim>\<open>unordered_map<StreamInformation, MinibatchData>\<close>.\<close>
type_synonym Minibatch = "(Variable \<times> ValuePtr) list"
type_synonym MinibatchDataMap = "(StreamInformation \<times> MinibatchData) list"

text \<open>\<^verbatim>\<open>unordered_map::insert\<close> leaves the map as it is when the key is present.\<close>
definition umap_insert :: "('k \<times> 'v) list \<Rightarrow> 'k \<Rightarrow> 'v \<Rightarrow> ('k \<times> 'v) list" where
  "umap_insert m k v = (case map_of m k of Some _ \<Rightarrow> m | None \<Rightarrow> m @ [(k, v)])"

text \<open>\<^verbatim>\<open>unordered_map::operator[]\<close> on a map that is not const: a missing key is
  inserted with a default-constructed value, which is returned; nothing is thrown.\<close>
definition umap_index :: "'v \<Rightarrow> ('k \<times> 'v) list \<Rightarrow> 'k \<Rightarrow> 'v \<times> ('k \<times> 'v) list" where
  "umap_index dflt m k = (case map_of m k of Some v \<Rightarrow> (v, m) | None \<Rightarrow> (dflt, m @ [(k, dflt)]))"

text \<open>The file utilities \<^verbatim>\<open>fexists\<close> and \<^verbatim>\<open>msra::files::get_all_files_from_directory\<close>
  observe durable storage; a storage state is what they return on it.\<close>

record FileSystem =
  fexists :: "wstring \<Rightarrow> bool"
  get_all_files_from_directory :: "wstring \<Rightarrow> wstring list"

text \<open>A parameter learner of the trainer; \<^verbatim>\<open>dynamic_pointer_cast<DistributedLearner>\<close>
  succeeds on the second form, which carries \<^verbatim>\<open>ParallelizationAfter()\<close>, the global rank of
  the communicator's current worker and the number of its workers.\<close>

datatype Learner = LocalLearner | DistributedLearner size_t size_t size_t

text \<open>The world: the trainer object, the heap of minibatch source objects (by address),
  durable storage, and the state that the overridable notification hooks of the session
  act on.\<close>

record ('t, 's, 'h) World =
  trainer :: 't
  sources :: "nat \<Rightarrow> 's"
  storage :: FileSystem
  hooks :: 'h

text \<open>The operations of the collaborators. \<open>'t\<close> is the state of the trainer, \<open>'s\<close> of a
  minibatch source, \<open>'h\<close> of the hooks, \<open>'d\<close> stands for \<^verbatim>\<open>double\<close>, whose arithmetic is
  left to the type; \<open>double_of\<close> is the conversion from \<^verbatim>\<open>size_t\<close>. \<open>TestMinibatch\<close>
  returns the error together with the sample count it writes to its reference parameter.
  The hooks \<^verbatim>\<open>OnMinibatchStart\<close>, \<^verbatim>\<open>OnMinibatchEnd\<close>, \<^verbatim>\<open>OnCheckpointStart\<close>,
  \<^verbatim>\<open>OnCheckpointEnd\<close> and \<^verbatim>\<open>OnCrossValidationEnd\<close> are virtual members declared in the
  header.\<close>

record ('t, 's, 'h, 'd) Env =
  TotalNumberOfSamplesSeen :: "'t \<Rightarrow> size_t"
  TrainMinibatch :: "Minibatch \<Rightarrow> DeviceDescriptor \<Rightarrow> 't \<Rightarrow> bool \<times> 't"
  TestMinibatch :: "Minibatch \<Rightarrow> DeviceDescriptor \<Rightarrow> 't \<Rightarrow> ('d \<times> size_t) \<times> 't"
  SummarizeTrainingProgress :: "'t \<Rightarrow> 't"
  SummarizeTestProgress :: "'t \<Rightarrow> 't"
  AddProgressWriters :: "ProgressWriterPtr list \<Rightarrow> 't \<Rightarrow> 't"
  ParameterLearners :: "'t \<Rightarrow> Learner list"
  Trainer_SaveCheckpoint :: "wstring \<Rightarrow> Dictionary \<Rightarrow> 't \<times> FileSystem \<Rightarrow> 't \<times> FileSystem"
  Trainer_RestoreFromCheckpoint :: "wstring \<Rightarrow> FileSystem \<Rightarrow> 't \<Rightarrow> Dictionary \<times> 't"
  Source_GetNextMinibatch ::
    "size_t \<Rightarrow> size_t \<Rightarrow> size_t \<Rightarrow> size_t \<Rightarrow> DeviceDescriptor \<Rightarrow> 's \<Rightarrow> MinibatchDataMap \<times> 's"
  Source_GetCheckpointState :: "'s \<Rightarrow> Dictionary"
  Source_RestoreFromCheckpoint :: "Dictionary \<Rightarrow> 's \<Rightarrow> 's"
  make_intermediate_dirs :: "wstring \<Rightarrow> FileSystem \<Rightarrow> FileSystem"
  OnMinibatchStart :: "'h \<Rightarrow> 'h"
  OnMinibatchEnd :: "'h \<Rightarrow> 'h"
  OnCheckpointStart :: "size_t \<Rightarrow> 'h \<Rightarrow> 'h"
  OnCheckpointEnd :: "size_t \<Rightarrow> 'h \<Rightarrow> 'h"
  OnCrossValidationEnd :: "size_t \<Rightarrow> 'd \<Rightarrow> size_t \<Rightarrow> size_t \<Rightarrow> 'h \<Rightarrow> bool \<times> 'h"
  double_of :: "size_t \<Rightarrow> 'd"

subsection \<open>PeriodicAction and TrainingSession\<close>

text \<open>\<^verbatim>\<open>PeriodicAction\<close>, as the constructor fills it: frequency, current index, sample
  count of the last call, and the handler. A handler takes the index and the device, acts
  on the world and returns whether training continues; \<open>None\<close> is a handler that does not
  return. The constructor of the session adds no action of frequency 0; the source divides
  by the frequency, which is undefined for 0, so the properties of actions below are about
  frequencies other than 0.\<close>

record 'w PeriodicAction =
  frequency :: size_t
  currentIndex :: size_t
  sampleCountWhenLastCalled :: size_t
  action :: "size_t \<Rightarrow> DeviceDescriptor \<Rightarrow> 'w \<Rightarrow> (bool \<times> 'w) option"

text \<open>The members of \<^verbatim>\<open>TrainingSession\<close>; the object behind \<^verbatim>\<open>m_trainer\<close> is the trainer of
  the world.\<close>

record 'w TrainingSession =
  m_config :: SessionConfig
  m_parallelAfterSamples :: size_t
  m_workerRank :: size_t
  m_numberOfWorkers :: size_t
  m_actions :: "'w PeriodicAction list"

subsection \<open>Fetching minibatches\<close>

text \<open>The loop of lines 363-364: for each pair of the mapping, the stream is looked up
  with \<^verbatim>\<open>operator[]\<close> in the local copy of the fetched data and its \<open>data\<close> is inserted
  under the variable.\<close>

fun remap ::
  "(Variable \<times> StreamInformation) list \<Rightarrow> Minibatch \<Rightarrow> MinibatchDataMap \<Rightarrow> Minibatch" where
  "remap [] minibatch minibatchData = minibatch"
| "remap (v # vs) minibatch minibatchData =
     (case umap_index default_MinibatchData minibatchData (snd v) of
        (d, minibatchData') \<Rightarrow> remap vs (umap_insert minibatch (fst v) (data d)) minibatchData')"

text \<open>\<^verbatim>\<open>TrainingSession::GetNextMinibatch\<close> (lines 351-365); \<open>source\<close> is the address that
  the pointer holds. The minibatch is cleared first; with size 0 the source is not
  called.\<close>

definition GetNextMinibatch ::
  "('t, 's, 'h, 'd) Env \<Rightarrow> SessionConfig \<Rightarrow> nat \<Rightarrow> size_t \<Rightarrow> size_t \<Rightarrow> size_t \<Rightarrow>
   DeviceDescriptor \<Rightarrow> ('t, 's, 'h) World \<Rightarrow> Minibatch \<times> ('t, 's, 'h) World" where
  "GetNextMinibatch env cfg source mbSize workerRank numberOfWorkers computeDevice w =
    (if mbSize = 0 then ([], w)
     else
       (case Source_GetNextMinibatch env 0 mbSize numberOfWorkers workerRank computeDevice
               (sources w source) of
          (minibatchData, s') \<Rightarrow>
            (let w' = w \<lparr> sources := (sources w)(source := s') \<rparr> in
             if minibatchData = [] then ([], w')
             else (remap (m_inputVarToStream cfg) [] minibatchData, w'))))"

text \<open>Modelled from the spec: \<^verbatim>\<open>GetMinibatchSize\<close> is defined in the header; the
  requested size is the scheduled size at the current sample count of the trainer.\<close>

definition GetMinibatchSize ::
  "('t, 's, 'h, 'd) Env \<Rightarrow> 'w TrainingSession \<Rightarrow> ('t, 's, 'h) World \<Rightarrow> size_t" where
  "GetMinibatchSize env ts w =
     m_mbSizeSchedule (m_config ts) (TotalNumberOfSamplesSeen env (trainer w))"

text \<open>\<^verbatim>\<open>TrainingSession::GetTrainingMinibatch\<close> (lines 329-343).\<close>

definition GetTrainingMinibatch ::
  "('t, 's, 'h, 'd) Env \<Rightarrow> 'w TrainingSession \<Rightarrow> size_t \<Rightarrow> DeviceDescriptor \<Rightarrow>
   ('t, 's, 'h) World \<Rightarrow> Minibatch \<times> ('t, 's, 'h) World" where
  "GetTrainingMinibatch env ts maxMbSize computeDevice w =
    (let distributed = \<not> (m_parallelAfterSamples ts > TotalNumberOfSamplesSeen env (trainer w));
         workerRank = (if distributed then m_workerRank ts else 0);
         numberOfWorkers = (if distributed then m_numberOfWorkers ts else 1);
         mbSize = min (GetMinibatchSize env ts w) maxMbSize
     in GetNextMinibatch env (m_config ts) (m_mbSource (m_config ts)) mbSize
          workerRank numberOfWorkers computeDevice w)"

text \<open>\<^verbatim>\<open>TrainingSession::GetCrossValidationMinibatch\<close> (lines 345-349), called only when the
  cross-validation source is not null; \<open>source\<close> is its address.\<close>

definition GetCrossValidationMinibatch ::
  "('t, 's, 'h, 'd) Env \<Rightarrow> SessionConfig \<Rightarrow> nat \<Rightarrow> size_t \<Rightarrow> DeviceDescriptor \<Rightarrow>
   ('t, 's, 'h) World \<Rightarrow> Minibatch \<times> ('t, 's, 'h) World" where
  "GetCrossValidationMinibatch env cfg source maxMbSize computeDevice w =
     GetNextMinibatch env cfg source maxMbSize 0 1 computeDevice w"

subsection \<open>Cross-validation, progress and checkpoints\<close>

text \<open>The loop of \<^verbatim>\<open>CrossValidate\<close> (lines 304-312). Its state is the accumulated error,
  the number of samples, the number of minibatches and \<open>sampleCount\<close>, which
  \<^verbatim>\<open>TestMinibatch\<close> overwrites and which indexes the schedule at the next fetch. The loop
  ends when a fetch gives an empty minibatch; a source that never does keeps it running.\<close>

partial_function (option) CrossValidate_loop ::
  "('t, 's, 'h, 'd :: {zero, plus, times, inverse}) Env \<Rightarrow> SessionConfig \<Rightarrow> nat \<Rightarrow>
   DeviceDescriptor \<Rightarrow> 'd \<times> size_t \<times> size_t \<times> size_t \<Rightarrow> ('t, 's, 'h) World \<Rightarrow>
   (('d \<times> size_t \<times> size_t) \<times> ('t, 's, 'h) World) option" where
  "CrossValidate_loop env cfg source computeDevice st w =
    (case st of (accumulatedError, totalNumberOfSamples, numberOfMinibatches, sampleCount) \<Rightarrow>
      (case GetCrossValidationMinibatch env cfg source
              (m_crossValidationSchedule cfg sampleCount) computeDevice w of
         (minibatch, w1) \<Rightarrow>
           if minibatch = [] then
             Some ((accumulatedError, totalNumberOfSamples, numberOfMinibatches), w1)
           else
             (case TestMinibatch env minibatch computeDevice (trainer w1) of
                ((error, sampleCount'), t') \<Rightarrow>
                  CrossValidate_loop env cfg source computeDevice
                    (accumulatedError + error * double_of env sampleCount',
                     totalNumberOfSamples + sampleCount',
                     numberOfMinibatches + 1,
                     sampleCount')
                    (w1 \<lparr> trainer := t' \<rparr>))))"

declare CrossValidate_loop.simps [code]

text \<open>The part of \<^verbatim>\<open>CrossValidate\<close> before the call of the hook (lines 296-315), for a source
  at address \<open>source\<close>: the checkpoint state of the source is taken, the loop runs, the state
  is restored into the source, the trainer summarises. It returns the arguments of the
  hook: average error, number of samples, number of minibatches.\<close>

definition CrossValidate_pass ::
  "('t, 's, 'h, 'd :: {zero, plus, times, inverse}) Env \<Rightarrow> SessionConfig \<Rightarrow> nat \<Rightarrow>
   DeviceDescriptor \<Rightarrow> ('t, 's, 'h) World \<Rightarrow>
   (('d \<times> size_t \<times> size_t) \<times> ('t, 's, 'h) World) option" where
  "CrossValidate_pass env cfg source computeDevice w =
    (let checkpoint = Source_GetCheckpointState env (sources w source) in
     case CrossValidate_loop env cfg source computeDevice (0, 0, 0, 0) w of
       None \<Rightarrow> None
     | Some ((accumulatedError, totalNumberOfSamples, numberOfMinibatches), w1) \<Rightarrow>
         (let w2 = w1 \<lparr> sources := (sources w1)
                     (source := Source_RestoreFromCheckpoint env checkpoint (sources w1 source)) \<rparr>;
              w3 = w2 \<lparr> trainer := SummarizeTestProgress env (trainer w2) \<rparr>
          in Some ((accumulatedError / double_of env totalNumberOfSamples,
                    totalNumberOfSamples, numberOfMinibatches), w3)))"

text \<open>\<^verbatim>\<open>TrainingSession::CrossValidate\<close> (lines 292-322); \<open>periodIndex\<close> is the parameter
  that the source calls \<^verbatim>\<open>currentIndex\<close>, here and in the functions below.\<close>

definition CrossValidate ::
  "('t, 's, 'h, 'd :: {zero, plus, times, inverse}) Env \<Rightarrow> SessionConfig \<Rightarrow> size_t \<Rightarrow>
   DeviceDescriptor \<Rightarrow> ('t, 's, 'h) World \<Rightarrow> (bool \<times> ('t, 's, 'h) World) option" where
  "CrossValidate env cfg periodIndex computeDevice w =
    (case m_crossValidationSource cfg of
       Some source \<Rightarrow>
         (case CrossValidate_pass env cfg source computeDevice w of
            None \<Rightarrow> None
          | Some ((averageError, totalNumberOfSamples, numberOfMinibatches), w3) \<Rightarrow>
              (case OnCrossValidationEnd env periodIndex averageError totalNumberOfSamples
                      numberOfMinibatches (hooks w3) of
                 (r, h) \<Rightarrow> Some (r, w3 \<lparr> hooks := h \<rparr>)))
     | None \<Rightarrow>
         (case OnCrossValidationEnd env periodIndex 0 0 0 (hooks w) of
            (r, h) \<Rightarrow> Some (r, w \<lparr> hooks := h \<rparr>)))"

text \<open>\<^verbatim>\<open>TrainingSession::ReportProgress\<close> (lines 324-327).\<close>

definition ReportProgress ::
  "('t, 's, 'h, 'd) Env \<Rightarrow> size_t \<Rightarrow> ('t, 's, 'h) World \<Rightarrow> ('t, 's, 'h) World" where
  "ReportProgress env periodIndex w = w \<lparr> trainer := SummarizeTrainingProgress env (trainer w) \<rparr>"

definition s_trainingMinibatchSource :: wstring where
  "s_trainingMinibatchSource = ''TrainingMinibatchSource''"

text \<open>\<^verbatim>\<open>std::to_wstring\<close> of an unsigned number: its decimal digits.\<close>

definition digit_char :: "nat \<Rightarrow> char" where
  "digit_char d = char_of (48 + d)"

fun to_wstring :: "nat \<Rightarrow> wstring" where
  "to_wstring n = (if n < 10 then [digit_char n] else to_wstring (n div 10) @ [digit_char (n mod 10)])"

declare to_wstring.simps [simp del]

text \<open>\<^verbatim>\<open>TrainingSession::SaveCheckpoint\<close> (lines 373-384).\<close>

definition SaveCheckpoint ::
  "('t, 's, 'h, 'd) Env \<Rightarrow> SessionConfig \<Rightarrow> size_t \<Rightarrow> ('t, 's, 'h) World \<Rightarrow> ('t, 's, 'h) World" where
  "SaveCheckpoint env cfg periodIndex w =
    (let w1 = w \<lparr> hooks := OnCheckpointStart env periodIndex (hooks w) \<rparr>;
         externalState = [(s_trainingMinibatchSource,
            DictValue (Source_GetCheckpointState env (sources w1 (m_mbSource cfg))))];
         checkpointFile = m_checkPointFileName cfg
            @ (if m_preserveAllCheckpoints cfg then to_wstring (unat periodIndex) else [])
     in case Trainer_SaveCheckpoint env checkpointFile externalState (trainer w1, storage w1) of
          (t', fs') \<Rightarrow>
            (let w2 = w1 \<lparr> trainer := t', storage := fs' \<rparr>
             in w2 \<lparr> hooks := OnCheckpointEnd env periodIndex (hooks w2) \<rparr>))"

text \<open>\<^verbatim>\<open>TrainingSession::SaveFinalCheckpoint\<close> (lines 386-391).\<close>

definition SaveFinalCheckpoint ::
  "('t, 's, 'h, 'd) Env \<Rightarrow> SessionConfig \<Rightarrow> ('t, 's, 'h) World \<Rightarrow> ('t, 's, 'h) World" where
  "SaveFinalCheckpoint env cfg w =
    (let externalState = [(s_trainingMinibatchSource,
            DictValue (Source_GetCheckpointState env (sources w (m_mbSource cfg))))]
     in case Trainer_SaveCheckpoint env (m_checkPointFileName cfg) externalState
               (trainer w, storage w) of
          (t', fs') \<Rightarrow> w \<lparr> trainer := t', storage := fs' \<rparr>)"

text \<open>\<^verbatim>\<open>TrainingSession::RestoreFromCheckpoint(const std::wstring&)\<close> (lines 367-371).
  Modelled from the spec: the \<^verbatim>\<open>Dictionary\<close> class is declared in the header; a bundle
  without a dictionary under the key of the training source is a failure that
  propagates.\<close>

definition RestoreFromCheckpoint_file ::
  "('t, 's, 'h, 'd) Env \<Rightarrow> SessionConfig \<Rightarrow> wstring \<Rightarrow> ('t, 's, 'h) World \<Rightarrow>
   error + ('t, 's, 'h) World" where
  "RestoreFromCheckpoint_file env cfg checkpointFileName w =
    (case Trainer_RestoreFromCheckpoint env checkpointFileName (storage w) (trainer w) of
       (externalState, t') \<Rightarrow>
         (case map_of externalState s_trainingMinibatchSource of
            Some (DictValue d) \<Rightarrow>
              (let source = m_mbSource cfg in
               Inr (w \<lparr> trainer := t',
                        sources := (sources w)
                          (source := Source_RestoreFromCheckpoint env d (sources w source)) \<rparr>))
          | _ \<Rightarrow> Inl (RuntimeError ''The checkpoint holds no state of the training source.'')))"

subsection \<open>Checkpoint discovery\<close>

text \<open>\<^verbatim>\<open>isNumber\<close> (lines 19-23), with \<^verbatim>\<open>isdigit\<close> on the decimal digits.\<close>

definition isdigit :: "char \<Rightarrow> bool" where
  "isdigit c = (c \<in> set ''0123456789'')"

definition isNumber :: "wstring \<Rightarrow> bool" where
  "isNumber s = (s \<noteq> [] \<and> list_all isdigit s)"

text \<open>\<^verbatim>\<open>find_last_of\<close>: the last position holding one of the characters, if any.\<close>

definition find_last_of :: "wstring \<Rightarrow> char list \<Rightarrow> nat option" where
  "find_last_of s cs =
     (case filter (\<lambda>i. s ! i \<in> set cs) (rev [0..<length s]) of [] \<Rightarrow> None | i # _ \<Rightarrow> Some i)"

text \<open>\<^verbatim>\<open>boost::starts_with(f, fileName)\<close>.\<close>

definition starts_with :: "wstring \<Rightarrow> wstring \<Rightarrow> bool" where
  "starts_with f fileName = (take (length fileName) f = fileName)"

text \<open>\<^verbatim>\<open>strtol(s, &tmp, 10)\<close> assigned to an \<^verbatim>\<open>int\<close>, on a string that \<open>isNumber\<close> accepted
  (no white space, no sign): the digits are read, a number above \<^verbatim>\<open>LONG_MAX\<close> gives
  \<^verbatim>\<open>LONG_MAX\<close>, and the conversion to \<^verbatim>\<open>int\<close> keeps the low 32 bits as a signed number
  (\<^verbatim>\<open>long\<close> of 64 bits, as on the Linux builds). The second component is the position
  where reading stopped, \<^verbatim>\<open>tmp\<close>.\<close>

definition digit_val :: "char \<Rightarrow> int" where
  "digit_val c = of_char c - 48"

definition strtol10 :: "string \<Rightarrow> int \<times> nat" where
  "strtol10 s =
     (let ds = takeWhile isdigit s;
          n = foldl (\<lambda>a c. a * 10 + digit_val c) 0 ds;
          l = min n (2 ^ 63 - 1)
      in (sint (word_of_int l :: 32 word), length ds))"

text \<open>The split of the configured path (lines 406-418): parent directory and file name.
  Without a separator the parent is \<^verbatim>\<open>..\<close>; with one, \<^verbatim>\<open>substr(pos)\<close> starts at the
  separator.\<close>

definition split_checkpoint :: "wstring \<Rightarrow> wstring \<times> wstring" where
  "split_checkpoint checkpoint =
     (case find_last_of checkpoint [CHR 0x5C, CHR ''/''] of
        None \<Rightarrow> (''..'', checkpoint)
      | Some pos \<Rightarrow> (take pos checkpoint, drop pos checkpoint))"

text \<open>The body of the loop over the directory entries (lines 431-456), on the pair of
  \<open>maxValue\<close> and \<open>restoreFile\<close>.\<close>

definition candidate_step ::
  "FileSystem \<Rightarrow> wstring \<Rightarrow> wstring \<Rightarrow> int \<times> wstring \<Rightarrow> wstring \<Rightarrow> int \<times> wstring" where
  "candidate_step fs parent fileName st f =
     (case st of (maxValue, restoreFile) \<Rightarrow>
       if \<not> starts_with f fileName then st
       else
         (let suffix = drop (length fileName) f in
          if \<not> isNumber suffix \<or> \<not> fexists fs (parent @ ''/'' @ f @ ''.ckp'') then st
          else
            (case strtol10 suffix of
               (value, tmp) \<Rightarrow>
                 if tmp \<noteq> length suffix then st
                 else if value > maxValue then (value, parent @ ''/'' @ f)
                 else st)))"

text \<open>The choice of the file to restore from (lines 420-457); the empty string says that
  there is none.\<close>

definition find_restoreFile :: "FileSystem \<Rightarrow> wstring \<Rightarrow> wstring" where
  "find_restoreFile fs checkpoint =
     (case split_checkpoint checkpoint of
        (parent, fileName) \<Rightarrow>
          if fexists fs checkpoint then checkpoint
          else snd (foldl (candidate_step fs parent fileName) (- 1, [])
                      (get_all_files_from_directory fs parent)))"

text \<open>The recalculation of the indices of an action after a restore (lines 471-472).\<close>

definition recalculate :: "size_t \<Rightarrow> 'w PeriodicAction \<Rightarrow> 'w PeriodicAction" where
  "recalculate totalNumberOfSamples a =
     a \<lparr> currentIndex := totalNumberOfSamples div frequency a,
         sampleCountWhenLastCalled :=
           totalNumberOfSamples - totalNumberOfSamples mod frequency a \<rparr>"

text \<open>\<^verbatim>\<open>TrainingSession::RestoreFromCheckpoint()\<close> (lines 398-474). The message written to
  \<^verbatim>\<open>stderr\<close> is left out.\<close>

definition RestoreFromCheckpoint ::
  "('t, 's, 'h, 'd) Env \<Rightarrow> ('t, 's, 'h) World TrainingSession \<Rightarrow> ('t, 's, 'h) World \<Rightarrow>
   error + ('t, 's, 'h) World TrainingSession \<times> ('t, 's, 'h) World" where
  "RestoreFromCheckpoint env ts w =
    (let checkpoint = m_checkPointFileName (m_config ts);
         w1 = w \<lparr> storage := make_intermediate_dirs env checkpoint (storage w) \<rparr>;
         restoreFile = find_restoreFile (storage w1) checkpoint
     in if restoreFile = [] then Inr (ts, w1)
        else
          (case RestoreFromCheckpoint_file env (m_config ts) restoreFile w1 of
             Inl e \<Rightarrow> Inl e
           | Inr w2 \<Rightarrow>
               (let totalNumberOfSamples = TotalNumberOfSamplesSeen env (trainer w2)
                in Inr (ts \<lparr> m_actions := map (recalculate totalNumberOfSamples) (m_actions ts) \<rparr>,
                        w2))))"

subsection \<open>Construction of the session\<close>

text \<open>The loop over the learners (lines 185-194), on the triple of
  \<open>m_parallelAfterSamples\<close>, \<open>m_workerRank\<close> and \<open>m_numberOfWorkers\<close>.\<close>

fun learner_step :: "size_t \<times> size_t \<times> size_t \<Rightarrow> Learner \<Rightarrow> size_t \<times> size_t \<times> size_t" where
  "learner_step (parallelAfterSamples, workerRank, numberOfWorkers) LocalLearner =
     (parallelAfterSamples, workerRank, numberOfWorkers)"
| "learner_step (parallelAfterSamples, workerRank, numberOfWorkers)
       (DistributedLearner parallelizationAfter globalRank workers) =
     (max parallelAfterSamples parallelizationAfter, globalRank, workers)"

text \<open>The three actions (lines 197-218), in the order of the source. The handlers are the
  closures of the source; enabling the profiler after a checkpoint is left out.\<close>

definition checkpoint_actions ::
  "('t, 's, 'h, 'd) Env \<Rightarrow> SessionConfig \<Rightarrow> ('t, 's, 'h) World PeriodicAction list" where
  "checkpoint_actions env cfg =
     (if m_withCheckpointing cfg \<and> m_checkpointFrequencyInSamples cfg \<noteq> 0
      then [\<lparr> frequency = m_checkpointFrequencyInSamples cfg, currentIndex = 0,
              sampleCountWhenLastCalled = 0,
              action = (\<lambda>periodIndex d w. Some (True, SaveCheckpoint env cfg periodIndex w)) \<rparr>]
      else [])"

definition crossValidation_actions ::
  "('t, 's, 'h, 'd :: {zero, plus, times, inverse}) Env \<Rightarrow> SessionConfig \<Rightarrow>
   ('t, 's, 'h) World PeriodicAction list" where
  "crossValidation_actions env cfg =
     (if m_withCrossValidation cfg \<and> m_crossValidationFrequencyInSamples cfg \<noteq> 0
      then [\<lparr> frequency = m_crossValidationFrequencyInSamples cfg, currentIndex = 0,
              sampleCountWhenLastCalled = 0,
              action = (\<lambda>periodIndex d w. CrossValidate env cfg periodIndex d w) \<rparr>]
      else [])"

definition progress_actions ::
  "('t, 's, 'h, 'd) Env \<Rightarrow> SessionConfig \<Rightarrow> ('t, 's, 'h) World PeriodicAction list" where
  "progress_actions env cfg =
     (if m_withProgressPrinting cfg \<and> m_progressFrequencyInSamples cfg \<noteq> 0
      then [\<lparr> frequency = m_progressFrequencyInSamples cfg, currentIndex = 0,
              sampleCountWhenLastCalled = 0,
              action = (\<lambda>periodIndex d w. Some (True, ReportProgress env periodIndex w)) \<rparr>]
      else [])"

text \<open>\<^verbatim>\<open>TrainingSession::TrainingSession(trainer, config)\<close> (lines 169-219). The trainer
  pointer is \<open>None\<close> when null and holds the trainer object otherwise; the constructor
  returns the session and the trainer, to which the progress writers may have been added.\<close>

definition TrainingSession_ctor ::
  "('t, 's, 'h, 'd :: {zero, plus, times, inverse}) Env \<Rightarrow> 't option \<Rightarrow> SessionConfig \<Rightarrow>
   error + ('t, 's, 'h) World TrainingSession \<times> 't" where
  "TrainingSession_ctor env trainerPtr config =
    (case trainerPtr of
       None \<Rightarrow> Inl (InvalidArgument ''Trainer is not allowed to be null.'')
     | Some t \<Rightarrow>
         (case foldl learner_step (0, 0, 1) (ParameterLearners env t) of
            (parallelAfterSamples, workerRank, numberOfWorkers) \<Rightarrow>
              Inr (\<lparr> m_config = config,
                     m_parallelAfterSamples = parallelAfterSamples,
                     m_workerRank = workerRank,
                     m_numberOfWorkers = numberOfWorkers,
                     m_actions = checkpoint_actions env config
                                 @ crossValidation_actions env config
                                 @ progress_actions env config \<rparr>,
                   if m_withProgressPrinting config \<and> m_progressFrequencyInSamples config \<noteq> 0
                   then AddProgressWriters env (m_progressWriters config) t else t)))"

subsection \<open>The training loop\<close>

text \<open>An observation of a run, which no branch of the model reads: each call of a handler
  is recorded with the position of its action in \<open>m_actions\<close>, the index passed to it, and
  the total number of samples at the call.\<close>

datatype Invocation = Invocation (inv_position: nat) (inv_index: size_t) (inv_samples: size_t)

text \<open>The body of the loop over the actions (lines 258-267) for the action at position \<open>k\<close>,
  on the triple of \<open>earlyExit\<close>, the world and the record of calls. It returns the action
  as the body leaves it.\<close>

definition Train_action ::
  "size_t \<Rightarrow> DeviceDescriptor \<Rightarrow> nat \<Rightarrow> 'w PeriodicAction \<Rightarrow> bool \<times> 'w \<times> Invocation list \<Rightarrow>
   ('w PeriodicAction \<times> bool \<times> 'w \<times> Invocation list) option" where
  "Train_action totalNumberOfSamples computeDevice k a st =
    (case st of (earlyExit, w, calls) \<Rightarrow>
      (let index = totalNumberOfSamples div frequency a in
       if index \<noteq> currentIndex a then
         (case action a (currentIndex a) computeDevice w of
            None \<Rightarrow> None
          | Some (shouldContinue, w') \<Rightarrow>
              Some (a \<lparr> currentIndex := index,
                        sampleCountWhenLastCalled := totalNumberOfSamples \<rparr>,
                    (if \<not> shouldContinue then True else earlyExit),
                    w',
                    calls @ [Invocation k (currentIndex a) totalNumberOfSamples]))
       else Some (a, st)))"

text \<open>The loop over the actions (lines 256-268), from position \<open>k\<close> on.\<close>

fun Train_actions ::
  "size_t \<Rightarrow> DeviceDescriptor \<Rightarrow> nat \<Rightarrow> 'w PeriodicAction list \<Rightarrow> bool \<times> 'w \<times> Invocation list \<Rightarrow>
   ('w PeriodicAction list \<times> bool \<times> 'w \<times> Invocation list) option" where
  "Train_actions totalNumberOfSamples computeDevice k [] st = Some ([], st)"
| "Train_actions totalNumberOfSamples computeDevice k (a # as) st =
    (case Train_action totalNumberOfSamples computeDevice k a st of
       None \<Rightarrow> None
     | Some (a', st') \<Rightarrow>
         (case Train_actions totalNumberOfSamples computeDevice (Suc k) as st' of
            None \<Rightarrow> None
          | Some (as', st'') \<Rightarrow> Some (a' # as', st'')))"

text \<open>The first part of the body of the main loop (lines 239-255): the minibatch is
  fetched within the samples that are left, the trainer trains on it between the two
  hooks. It returns the new value of \<open>shouldTrain\<close> and the world. The profiling scope is
  left out.\<close>

definition Train_minibatch ::
  "('t, 's, 'h, 'd) Env \<Rightarrow> DeviceDescriptor \<Rightarrow> 'w TrainingSession \<Rightarrow> bool \<Rightarrow>
   ('t, 's, 'h) World \<Rightarrow> bool \<times> ('t, 's, 'h) World" where
  "Train_minibatch env computeDevice ts earlyExit w =
    (let seen = TotalNumberOfSamplesSeen env (trainer w);
         samplesLeft =
           (if earlyExit \<or> m_maxNumTrainingSamples (m_config ts) \<le> seen then 0
            else m_maxNumTrainingSamples (m_config ts) - seen)
     in case GetTrainingMinibatch env ts samplesLeft computeDevice w of
          (minibatch, w1) \<Rightarrow>
            (let w2 = w1 \<lparr> hooks := OnMinibatchStart env (hooks w1) \<rparr> in
             case TrainMinibatch env minibatch computeDevice (trainer w2) of
               (shouldTrain, t3) \<Rightarrow>
                 (let w3 = w2 \<lparr> trainer := t3 \<rparr>
                  in (shouldTrain, w3 \<lparr> hooks := OnMinibatchEnd env (hooks w3) \<rparr>))))"

text \<open>One pass through the body of the main loop (lines 238-268), on the session, \<open>earlyExit\<close>,
  the world and the record of calls: after the training step the total number of samples
  is read from the trainer and the actions are gone through. It returns the new value of
  \<open>shouldTrain\<close> first.\<close>

definition Train_iteration ::
  "('t, 's, 'h, 'd) Env \<Rightarrow> DeviceDescriptor \<Rightarrow>
   ('t, 's, 'h) World TrainingSession \<times> bool \<times> ('t, 's, 'h) World \<times> Invocation list \<Rightarrow>
   (bool \<times> ('t, 's, 'h) World TrainingSession \<times> bool \<times> ('t, 's, 'h) World \<times> Invocation list) option"
  where
  "Train_iteration env computeDevice st =
    (case st of (ts, earlyExit, w, calls) \<Rightarrow>
      (case Train_minibatch env computeDevice ts earlyExit w of
         (shouldTrain, w4) \<Rightarrow>
           (let totalNumberOfSamples = TotalNumberOfSamplesSeen env (trainer w4)
            in case Train_actions totalNumberOfSamples computeDevice 0 (m_actions ts)
                      (earlyExit, w4, calls) of
                 None \<Rightarrow> None
               | Some (actions', st') \<Rightarrow>
                   Some (shouldTrain, ts \<lparr> m_actions := actions' \<rparr>, st'))))"

text \<open>The main loop (lines 236-269), entered with \<open>shouldTrain\<close> true: the body runs, and
  runs again as long as the trainer returned true. A trainer that always does keeps it
  running.\<close>

partial_function (option) Train_loop ::
  "('t, 's, 'h, 'd) Env \<Rightarrow> DeviceDescriptor \<Rightarrow>
   ('t, 's, 'h) World TrainingSession \<times> bool \<times> ('t, 's, 'h) World \<times> Invocation list \<Rightarrow>
   (('t, 's, 'h) World TrainingSession \<times> bool \<times> ('t, 's, 'h) World \<times> Invocation list) option"
  where
  "Train_loop env computeDevice st =
    (case Train_iteration env computeDevice st of
       None \<Rightarrow> None
     | Some (shouldTrain, st') \<Rightarrow>
         if shouldTrain then Train_loop env computeDevice st' else Some st')"

declare Train_loop.simps [code]

text \<open>The actions on the data at the end (lines 274-279), from position \<open>k\<close> on: the result
  of a handler is not used, the actions are not changed.\<close>

fun Train_flush ::
  "('t, 's, 'h, 'd) Env \<Rightarrow> DeviceDescriptor \<Rightarrow> nat \<Rightarrow> ('t, 's, 'h) World PeriodicAction list \<Rightarrow>
   ('t, 's, 'h) World \<times> Invocation list \<Rightarrow> (('t, 's, 'h) World \<times> Invocation list) option" where
  "Train_flush env computeDevice k [] st = Some st"
| "Train_flush env computeDevice k (a # as) (w, calls) =
    (let seen = TotalNumberOfSamplesSeen env (trainer w) in
     if seen mod frequency a \<noteq> 0 \<and> seen \<noteq> sampleCountWhenLastCalled a then
       (case action a (currentIndex a) computeDevice w of
          None \<Rightarrow> None
        | Some (r, w') \<Rightarrow>
            Train_flush env computeDevice (Suc k) as
              (w', calls @ [Invocation k (currentIndex a) seen]))
     else Train_flush env computeDevice (Suc k) as (w, calls))"

text \<open>The restore at the start of \<^verbatim>\<open>Train\<close> (lines 226-232): it returns the session, the
  world and \<open>restoredNumberOfSamples\<close>.\<close>

definition Train_restore ::
  "('t, 's, 'h, 'd) Env \<Rightarrow> ('t, 's, 'h) World TrainingSession \<Rightarrow> ('t, 's, 'h) World \<Rightarrow>
   error + ('t, 's, 'h) World TrainingSession \<times> ('t, 's, 'h) World \<times> size_t" where
  "Train_restore env ts w =
    (if m_restoreFromCheckpointIfExists (m_config ts) \<and> m_checkPointFileName (m_config ts) \<noteq> []
     then (case RestoreFromCheckpoint env ts w of
             Inl e \<Rightarrow> Inl e
           | Inr (ts1, w1) \<Rightarrow> Inr (ts1, w1, TotalNumberOfSamplesSeen env (trainer w1)))
     else Inr (ts, w, 0))"

text \<open>The end of \<^verbatim>\<open>Train\<close> (lines 271-288): the actions on the data at the end, when
  the number of samples differs from the restored one, and the final checkpoint.\<close>

definition Train_finish ::
  "('t, 's, 'h, 'd) Env \<Rightarrow> DeviceDescriptor \<Rightarrow> ('t, 's, 'h) World TrainingSession \<Rightarrow> size_t \<Rightarrow>
   ('t, 's, 'h) World \<times> Invocation list \<Rightarrow> (('t, 's, 'h) World \<times> Invocation list) option" where
  "Train_finish env computeDevice ts restoredNumberOfSamples st =
    (case (if restoredNumberOfSamples \<noteq> TotalNumberOfSamplesSeen env (trainer (fst st))
           then Train_flush env computeDevice 0 (m_actions ts) st
           else Some st) of
       None \<Rightarrow> None
     | Some (w3, calls3) \<Rightarrow>
         Some (if m_withCheckpointing (m_config ts) \<and> m_preserveAllCheckpoints (m_config ts)
                  \<and> \<not> fexists (storage w3) (m_checkPointFileName (m_config ts))
               then SaveFinalCheckpoint env (m_config ts) w3 else w3,
               calls3))"

text \<open>\<^verbatim>\<open>TrainingSession::Train\<close> (lines 221-289). The result is \<open>None\<close> when a loop or a
  handler does not return, an error when the restore fails, and otherwise the session, the
  world and the record of the calls of the handlers.\<close>

definition Train ::
  "('t, 's, 'h, 'd) Env \<Rightarrow> DeviceDescriptor \<Rightarrow> ('t, 's, 'h) World TrainingSession \<Rightarrow>
   ('t, 's, 'h) World \<Rightarrow>
   (error + ('t, 's, 'h) World TrainingSession \<times> ('t, 's, 'h) World \<times> Invocation list) option"
  where
  "Train env computeDevice ts w =
    (let shouldTrain = (m_maxNumTrainingSamples (m_config ts) > 0)
     in case Train_restore env ts w of
          Inl e \<Rightarrow> Some (Inl e)
        | Inr (ts1, w1, restoredNumberOfSamples) \<Rightarrow>
            (case (if shouldTrain then Train_loop env computeDevice (ts1, False, w1, [])
                   else Some (ts1, False, w1, [])) of
               None \<Rightarrow> None
             | Some (ts2, earlyExit, w2, calls2) \<Rightarrow>
                 (case Train_finish env computeDevice ts2 restoredNumberOfSamples (w2, calls2) of
                    None \<Rightarrow> None
                  | Some (w3, calls3) \<Rightarrow> Some (Inr (ts2, w3, calls3)))))"

subsection \<open>A small environment for concrete runs\<close>

text \<open>Collaborators simple enough to run the session on. The trainer is a pair of the
  samples it has seen and the number of calls of \<open>TrainMinibatch\<close>; a value handle is the
  number of samples it holds; \<open>TrainMinibatch\<close> adds the samples of the minibatch, at most
  \<open>c\<close> of them in one call when the cap is \<open>Some c\<close> (and none where the counter would wrap
  around), and returns whether the minibatch was not empty. A source is the number of samples it has left and
  hands them out on stream 0. Restoring the trainer from any file sets its samples to
  \<open>restored\<close>; the cross-validation hook returns \<open>continue\<close>.\<close>

definition handle_samples :: "Minibatch \<Rightarrow> nat" where
  "handle_samples mb = sum_list (map (\<lambda>v. case snd v of None \<Rightarrow> 0 | Some h \<Rightarrow> h) mb)"

definition toy_fetch :: "size_t \<Rightarrow> nat \<Rightarrow> MinibatchDataMap \<times> nat" where
  "toy_fetch mbSize remaining =
     (if remaining = 0 then ([], 0)
      else ([(0, \<lparr> data = Some (min (unat mbSize) remaining), numberOfSequences = 1,
                    numberOfSamples = of_nat (min (unat mbSize) remaining) \<rparr>)],
            remaining - min (unat mbSize) remaining))"

definition toy_train ::
  "nat option \<Rightarrow> Minibatch \<Rightarrow> DeviceDescriptor \<Rightarrow> size_t \<times> nat \<Rightarrow> bool \<times> size_t \<times> nat" where
  "toy_train cap mb d t =
     (let n = fst t + of_nat (case cap of None \<Rightarrow> handle_samples mb
                              | Some c \<Rightarrow> min (handle_samples mb) c)
      in (mb \<noteq> [], (if fst t \<le> n then n else fst t, Suc (snd t))))"

definition toy_env :: "size_t \<Rightarrow> bool \<Rightarrow> (size_t \<times> nat, nat, unit, real) Env" where
  "toy_env restored continue =
     \<lparr> TotalNumberOfSamplesSeen = fst,
       TrainMinibatch = toy_train None,
       TestMinibatch = (\<lambda>mb d t. ((1, of_nat (handle_samples mb)), t)),
       SummarizeTrainingProgress = (\<lambda>t. t),
       SummarizeTestProgress = (\<lambda>t. t),
       AddProgressWriters = (\<lambda>ws t. t),
       ParameterLearners = (\<lambda>t. []),
       Trainer_SaveCheckpoint = (\<lambda>name ext p. p),
       Trainer_RestoreFromCheckpoint =
         (\<lambda>name fs t. ([(s_trainingMinibatchSource, DictValue [])], (restored, snd t))),
       Source_GetNextMinibatch = (\<lambda>seqs mbSize workers rank d remaining. toy_fetch mbSize remaining),
       Source_GetCheckpointState = (\<lambda>remaining. [(''left'', OpaqueValue remaining)]),
       Source_RestoreFromCheckpoint =
         (\<lambda>d remaining. case d of [(k, OpaqueValue r)] \<Rightarrow> r | _ \<Rightarrow> remaining),
       make_intermediate_dirs = (\<lambda>name fs. fs),
       OnMinibatchStart = (\<lambda>h. h),
       OnMinibatchEnd = (\<lambda>h. h),
       OnCheckpointStart = (\<lambda>i h. h),
       OnCheckpointEnd = (\<lambda>i h. h),
       OnCrossValidationEnd = (\<lambda>i e n m h. (continue, h)),
       double_of = (\<lambda>n. real (unat n)) \<rparr>"


text \<open>The same with a trainer whose \<^verbatim>\<open>SaveCheckpoint\<close> leaves the file it is given in the
  storage, and a configuration that preserves all checkpoints, so that the name of the
  file shows the index that the handler of the checkpoint action was called with.\<close>

definition saving_env :: "(size_t \<times> nat, nat, unit, real) Env" where
  "saving_env = (toy_env 0 True)
     \<lparr> Trainer_SaveCheckpoint :=
         (\<lambda>name ext p. (fst p, (snd p) \<lparr> fexists := (fexists (snd p)) (name := True) \<rparr>)) \<rparr>"

text \<open>Two trainers for cross-validation, both counting the calls of \<^verbatim>\<open>TestMinibatch\<close> in
  their second component. The first evaluates with its first component, which stands for
  the parameters of the model and which evaluation leaves alone: the error of a minibatch
  is that component. The error of the second is the number of evaluations made so far.\<close>

definition param_env :: "(size_t \<times> nat, nat, unit, real) Env" where
  "param_env = (toy_env 0 True)
     \<lparr> TestMinibatch :=
         (\<lambda>mb d t. ((real (unat (fst t)), of_nat (handle_samples mb)), (fst t, Suc (snd t)))) \<rparr>"

definition counting_env :: "(size_t \<times> nat, nat, unit, real) Env" where
  "counting_env = (toy_env 0 True)
     \<lparr> TestMinibatch :=
         (\<lambda>mb d t. ((real (snd t), of_nat (handle_samples mb)), (fst t, Suc (snd t)))) \<rparr>"

text \<open>A storage holding the given files, with empty directory listings.\<close>

definition toy_storage :: "wstring list \<Rightarrow> FileSystem" where
  "toy_storage files =
     \<lparr> fexists = (\<lambda>name. name \<in> set files), get_all_files_from_directory = (\<lambda>dir. []) \<rparr>"

text \<open>A world with a fresh trainer, every source holding \<open>n\<close> samples, and no files.\<close>

definition toy_world :: "nat \<Rightarrow> (size_t \<times> nat, nat, unit) World" where
  "toy_world n = \<lparr> trainer = (0, 0), sources = (\<lambda>p. n), storage = toy_storage [], hooks = () \<rparr>"

text \<open>The session that the constructor builds from a configuration when the trainer has
  no distributed learner.\<close>

definition example_session ::
  "('t, 's, 'h, 'd :: {zero, plus, times, inverse}) Env \<Rightarrow> SessionConfig \<Rightarrow>
   ('t, 's, 'h) World TrainingSession" where
  "example_session env cfg =
     \<lparr> m_config = cfg, m_parallelAfterSamples = 0, m_workerRank = 0, m_numberOfWorkers = 1,
       m_actions = checkpoint_actions env cfg @ crossValidation_actions env cfg
                   @ progress_actions env cfg \<rparr>"

text \<open>A configuration with checkpoints every \<open>c\<close> samples into the file \<^verbatim>\<open>model\<close>, progress
  every \<open>p\<close> samples and a cross-validation without a source every \<open>v\<close> samples.\<close>

definition example_config_actions ::
  "size_t \<Rightarrow> size_t \<Rightarrow> size_t \<Rightarrow> size_t \<Rightarrow> size_t \<Rightarrow> SessionConfig" where
  "example_config_actions mbSize maxSamples c v p =
     (example_config mbSize maxSamples)
       \<lparr> m_withCheckpointing := True, m_withCrossValidation := True,
         m_withProgressPrinting := True,
         m_checkPointFileName := ''model'', m_checkpointFrequencyInSamples := c,
         m_crossValidationFrequencyInSamples := v, m_progressFrequencyInSamples := p \<rparr>"

text \<open>The configuration \<open>example_config_actions 25 100 10 0 100\<close> with all checkpoints
  preserved.\<close>

definition example_config_preserving :: SessionConfig where
  "example_config_preserving =
     (example_config_actions 25 100 10 0 100) \<lparr> m_preserveAllCheckpoints := True \<rparr>"

text \<open>A configuration with a cross-validation every 10 samples, in minibatches of 10, on
  the source at address 1.\<close>

definition example_config_validation :: SessionConfig where
  "example_config_validation =
     (example_config_actions 10 100 0 10 0) \<lparr> m_crossValidationSource := Some 1 \<rparr>"

text \<open>A storage with the directory \<^verbatim>\<open>out\<close> holding the numbered checkpoint \<^verbatim>\<open>model3\<close> and its
  companion \<^verbatim>\<open>model3.ckp\<close>, and a storage whose directory \<^verbatim>\<open>..\<close> holds the checkpoints
  \<^verbatim>\<open>model0\<close>, \<^verbatim>\<open>model1\<close> and \<^verbatim>\<open>model10\<close> with their companions and a file \<^verbatim>\<open>modelX\<close>. A
  directory is listed by the names of its files.\<close>

definition storage_out :: FileSystem where
  "storage_out =
     \<lparr> fexists = (\<lambda>name. name \<in> set [''out/model3'', ''out/model3.ckp'']),
       get_all_files_from_directory =
         (\<lambda>dir. if dir = ''out'' then [''model3'', ''model3.ckp''] else []) \<rparr>"

definition storage_numbered :: FileSystem where
  "storage_numbered =
     \<lparr> fexists = (\<lambda>name. name \<in> set [''../model0'', ''../model0.ckp'', ''../model1'',
                      ''../model1.ckp'', ''../model10'', ''../model10.ckp'', ''../modelX'']),
       get_all_files_from_directory =
         (\<lambda>dir. if dir = ''..''
                then [''model0'', ''model0.ckp'', ''model1'', ''model1.ckp'', ''model10'',
                      ''model10.ckp'', ''modelX'']
                else []) \<rparr>"

text \<open>A storage whose directory \<^verbatim>\<open>..\<close> holds the checkpoints \<^verbatim>\<open>model5\<close> and
  \<^verbatim>\<open>model4294967296\<close> with their companions.\<close>

definition storage_large :: FileSystem where
  "storage_large =
     \<lparr> fexists = (\<lambda>name. name \<in> set [''../model5'', ''../model5.ckp'',
                      ''../model4294967296'', ''../model4294967296.ckp'']),
       get_all_files_from_directory =
         (\<lambda>dir. if dir = ''..''
                then [''model5'', ''model5.ckp'', ''model4294967296'', ''model4294967296.ckp'']
                else []) \<rparr>"

subsection \<open>The invariant of an action\<close>

text \<open>The sample count of the last call lies in the period that \<open>currentIndex\<close> names, as
  numbers (without the wrap-around of \<^verbatim>\<open>size_t\<close>).\<close>

definition action_invariant :: "'w PeriodicAction \<Rightarrow> bool" where
  "action_invariant a =
     (unat (frequency a) * unat (currentIndex a) \<le> unat (sampleCountWhenLastCalled a)
      \<and> unat (sampleCountWhenLastCalled a) < unat (frequency a) * (unat (currentIndex a) + 1))"

subsection \<open>The indices passed to a handler\<close>

text \<open>The period indices, as numbers, that the handler of the action at position \<open>k\<close> was
  called with, in the order of the calls.\<close>

definition indices_passed :: "nat \<Rightarrow> Invocation list \<Rightarrow> nat list" where
  "indices_passed k calls = map (\<lambda>c. unat (inv_index c)) (filter (\<lambda>c. inv_position c = k) calls)"


section \<open>Properties\<close>

subsection \<open>Checkpointing with an empty file name\<close>

lemma example_config_ctor:
  "SessionConfig_ctor (Some 0) (\<lambda>_. 10) [(0, 0)] 100 = Inr (example_config 10 100)"
  by (simp add: SessionConfig_ctor_def example_config_def)

text \<open>
  C8, as stated, fails: with an empty file name, the frequency
  \<^verbatim>\<open>numeric_limits<size_t>::max()\<close> (which is not zero) and no preservation of all
  checkpoints, \<open>Checkpointing\<close> raises nothing and returns a configuration whose frequency
  is 0.
\<close>

theorem C8_counterexample:
  "size_t_max \<noteq> 0
   \<and> \<not> is_InvalidArgument (Checkpointing [] size_t_max True False (example_config 10 100))
   \<and> Checkpointing [] size_t_max True False (example_config 10 100)
       = Inr ((example_config 10 100)
               \<lparr> m_checkPointFileName := [], m_preserveAllCheckpoints := False,
                 m_restoreFromCheckpointIfExists := True,
                 m_checkpointFrequencyInSamples := 0, m_withCheckpointing := True \<rparr>)"
  by (simp add: Checkpointing_def example_config_def size_t_max_def)

text \<open>
  C8, amended. For a configuration on which checkpointing has not been specified yet,
  \<open>Checkpointing\<close> with an empty file name raises an invalid-argument error exactly when
  the frequency is neither 0 nor the maximal \<^verbatim>\<open>size_t\<close>, or all checkpoints are to be
  preserved; otherwise it succeeds, the stored frequency is 0, the file name is empty and
  the preservation flag is false. On a configuration where checkpointing has been specified
  already the call raises a runtime error instead.
\<close>

theorem C8_Checkpointing_empty_path:
  "(\<not> m_withCheckpointing c \<longrightarrow>
      (is_InvalidArgument (Checkpointing [] f r p c)
         \<longleftrightarrow> (f \<noteq> 0 \<and> f \<noteq> size_t_max) \<or> p)
    \<and> (\<not> ((f \<noteq> 0 \<and> f \<noteq> size_t_max) \<or> p) \<longrightarrow>
         (\<exists>c'. Checkpointing [] f r p c = Inr c'
               \<and> m_checkpointFrequencyInSamples c' = 0
               \<and> m_checkPointFileName c' = []
               \<and> \<not> m_preserveAllCheckpoints c'
               \<and> m_withCheckpointing c')))
   \<and> (m_withCheckpointing c \<longrightarrow> is_RuntimeError (Checkpointing [] f r p c))"
  by (auto simp: Checkpointing_def)

theorem C8_Checkpointing_empty_path_witness:
  "\<not> m_withCheckpointing (example_config 10 100)
   \<and> is_InvalidArgument (Checkpointing [] 5 True False (example_config 10 100))
   \<and> is_InvalidArgument (Checkpointing [] 0 True True (example_config 10 100))
   \<and> (\<exists>c'. Checkpointing [] 0 True False (example_config 10 100) = Inr c'
          \<and> m_checkpointFrequencyInSamples c' = 0)
   \<and> m_withCheckpointing (example_config_actions 10 100 20 0 0)
   \<and> is_RuntimeError (Checkpointing [] 5 True False (example_config_actions 10 100 20 0 0))"
proof -
  have h: "\<not> m_withCheckpointing (example_config 10 100)"
    by (simp add: example_config_def)
  have g: "m_withCheckpointing (example_config_actions 10 100 20 0 0)"
    by (simp add: example_config_actions_def)
  have n: "(5::size_t) \<noteq> 0 \<and> (5::size_t) \<noteq> size_t_max"
    by (simp add: size_t_max_def)
  show ?thesis
    using h g n
      C8_Checkpointing_empty_path [of "example_config 10 100" 5 True False]
      C8_Checkpointing_empty_path [of "example_config 10 100" 0 True True]
      C8_Checkpointing_empty_path [of "example_config 10 100" 0 True False]
      C8_Checkpointing_empty_path [of "example_config_actions 10 100 20 0 0" 5 True False]
    by blast
qed

subsection \<open>The loop over the actions\<close>

lemma Train_action_Some:
  assumes "Train_action T dev k a (e, w, calls) = Some (a', e', w', calls')"
  shows "a' = (if T div frequency a \<noteq> currentIndex a
               then a \<lparr> currentIndex := T div frequency a, sampleCountWhenLastCalled := T \<rparr>
               else a)"
    and "calls' = calls @ (if T div frequency a \<noteq> currentIndex a
                            then [Invocation k (currentIndex a) T] else [])"
    and "e \<longrightarrow> e'"
  using assms
  by (auto simp: Train_action_def Let_def split: if_splits option.splits)

lemma Train_actions_Some:
  assumes "Train_actions T dev k as (e, w, calls) = Some (as', e', w', calls')"
  shows "as' = map (\<lambda>a. if T div frequency a \<noteq> currentIndex a
                         then a \<lparr> currentIndex := T div frequency a,
                                  sampleCountWhenLastCalled := T \<rparr>
                         else a) as
       \<and> calls' = calls @ map (\<lambda>p. Invocation (fst p) (currentIndex (snd p)) T)
                           (filter (\<lambda>p. T div frequency (snd p) \<noteq> currentIndex (snd p))
                              (enumerate k as))
       \<and> (e \<longrightarrow> e')"
  using assms
proof (induction as arbitrary: k e w calls as' e' w' calls')
  case Nil
  then show ?case by simp
next
  case (Cons a as)
  from Cons.prems obtain a1 e1 w1 calls1 as1 where
    s1: "Train_action T dev k a (e, w, calls) = Some (a1, e1, w1, calls1)" and
    s2: "Train_actions T dev (Suc k) as (e1, w1, calls1) = Some (as1, e', w', calls')" and
    s3: "as' = a1 # as1"
    by (auto split: option.splits)
  note h = Train_action_Some [OF s1]
  note ih = Cons.IH [OF s2]
  show ?case
    using h ih s3 by (auto simp: enumerate_simps)
qed

lemma Train_iteration_Some:
  assumes "Train_iteration env dev (ts, e, w, calls) = Some (sh, ts', e', w', calls')"
  shows "\<exists>as'. Train_actions
            (TotalNumberOfSamplesSeen env (trainer (snd (Train_minibatch env dev ts e w))))
            dev 0 (m_actions ts) (e, snd (Train_minibatch env dev ts e w), calls)
          = Some (as', e', w', calls')
        \<and> ts' = ts \<lparr> m_actions := as' \<rparr>
        \<and> sh = fst (Train_minibatch env dev ts e w)"
  using assms
  by (auto simp: Train_iteration_def Let_def split: prod.splits option.splits)

lemma Train_actions_handlers:
  assumes "Train_actions T dev k as (e, w, calls) = Some (as', e', w', calls')"
  shows "foldl (\<lambda>st a. case st of None \<Rightarrow> None
                 | Some (x, v) \<Rightarrow>
                     (case action a (currentIndex a) dev v of None \<Rightarrow> None
                      | Some (c, v') \<Rightarrow> Some (if \<not> c then True else x, v')))
           (Some (e, w))
           (filter (\<lambda>a. T div frequency a \<noteq> currentIndex a) as)
         = Some (e', w')"
  using assms
proof (induction as arbitrary: k e w calls as' e' w' calls')
  case Nil
  then show ?case by simp
next
  case (Cons a as)
  from Cons.prems obtain a1 e1 w1 calls1 as1 where
    s1: "Train_action T dev k a (e, w, calls) = Some (a1, e1, w1, calls1)" and
    s2: "Train_actions T dev (Suc k) as (e1, w1, calls1) = Some (as1, e', w', calls')"
    by (auto split: option.splits)
  note ih = Cons.IH [OF s2]
  show ?case
  proof (cases "T div frequency a \<noteq> currentIndex a")
    case True
    with s1 obtain c where
      "action a (currentIndex a) dev w = Some (c, w1)" "e1 = (if \<not> c then True else e)"
      by (auto simp: Train_action_def Let_def split: option.splits)
    with True ih show ?thesis by simp
  next
    case False
    with s1 have "e1 = e" "w1 = w"
      by (auto simp: Train_action_def Let_def)
    with False ih show ?thesis by simp
  qed
qed

text \<open>
  C1. In an iteration of the main loop that returns, let \<open>T\<close> be the total number of
  samples that the trainer reports after the training step. Every action whose frequency
  is not 0 (the constructor adds no other, and the division of the source is undefined
  there) is treated as follows: with \<open>index = T div frequency\<close>, the action is left as it is
  when \<open>index = currentIndex\<close>, and otherwise its \<open>currentIndex\<close> becomes \<open>index\<close> and its
  \<open>sampleCountWhenLastCalled\<close> becomes \<open>T\<close>; the handlers called in the iteration are, in
  the order of the actions, exactly those of the actions with \<open>index \<noteq> currentIndex\<close>,
  each called once with the value that \<open>currentIndex\<close> had before the update. The world
  and \<open>earlyExit\<close> at the end of the iteration are what these calls make of the world after
  the training step and of the \<open>earlyExit\<close> at the start: each handler acts on the world
  that the one before it left, and \<open>earlyExit\<close> becomes true when a handler returns false.
\<close>

theorem C1_action_fires_iff_index_differs:
  assumes "Train_iteration env dev (ts, earlyExit, w, calls)
             = Some (shouldTrain, ts', earlyExit', w', calls')"
      and "\<forall>a \<in> set (m_actions ts). frequency a \<noteq> 0"
      and "T = TotalNumberOfSamplesSeen env
                 (trainer (snd (Train_minibatch env dev ts earlyExit w)))"
  shows "m_actions ts' =
           map (\<lambda>a. if T div frequency a \<noteq> currentIndex a
                     then a \<lparr> currentIndex := T div frequency a,
                              sampleCountWhenLastCalled := T \<rparr>
                     else a) (m_actions ts)
       \<and> calls' = calls @ map (\<lambda>p. Invocation (fst p) (currentIndex (snd p)) T)
                           (filter (\<lambda>p. T div frequency (snd p) \<noteq> currentIndex (snd p))
                              (enumerate 0 (m_actions ts)))
       \<and> foldl (\<lambda>st a. case st of None \<Rightarrow> None
                  | Some (x, v) \<Rightarrow>
                      (case action a (currentIndex a) dev v of None \<Rightarrow> None
                       | Some (shouldContinue, v') \<Rightarrow>
                           Some (if \<not> shouldContinue then True else x, v')))
            (Some (earlyExit, snd (Train_minibatch env dev ts earlyExit w)))
            (filter (\<lambda>a. T div frequency a \<noteq> currentIndex a) (m_actions ts))
          = Some (earlyExit', w')"
proof -
  from Train_iteration_Some [OF assms(1)] assms(3) obtain as' where
    a: "Train_actions T dev 0 (m_actions ts)
          (earlyExit, snd (Train_minibatch env dev ts earlyExit w), calls)
        = Some (as', earlyExit', w', calls')"
    and t: "ts' = ts \<lparr> m_actions := as' \<rparr>"
    by auto
  from Train_actions_Some [OF a] Train_actions_handlers [OF a] t show ?thesis by simp
qed

lemma example_iteration_returns:
  "Train_iteration (toy_env 0 True) 0
     (example_session (toy_env 0 True) (example_config_actions 25 100 10 0 100),
      False, toy_world 35, []) \<noteq> None"
  by code_simp

lemma example_saving_returns:
  "Train_iteration saving_env 0
     (example_session saving_env example_config_preserving, False, toy_world 35, []) \<noteq> None"
  by code_simp

lemma example_saving_total:
  "TotalNumberOfSamplesSeen saving_env
     (trainer (snd (Train_minibatch saving_env 0
        (example_session saving_env example_config_preserving) False (toy_world 35)))) = 25"
  by code_simp

lemma example_saving_storage:
  "\<not> fexists (storage (snd (Train_minibatch saving_env 0
        (example_session saving_env example_config_preserving) False (toy_world 35)))) ''model2''"
  by code_simp

lemma example_saving_actions:
  "m_actions (example_session saving_env example_config_preserving) =
     [\<lparr> frequency = 10, currentIndex = 0, sampleCountWhenLastCalled = 0,
        action = (\<lambda>periodIndex d w.
                    Some (True, SaveCheckpoint saving_env example_config_preserving periodIndex w)) \<rparr>,
      \<lparr> frequency = 100, currentIndex = 0, sampleCountWhenLastCalled = 0,
        action = (\<lambda>periodIndex d w. Some (True, ReportProgress saving_env periodIndex w)) \<rparr>]"
  by (simp add: example_session_def checkpoint_actions_def crossValidation_actions_def
        progress_actions_def example_config_preserving_def example_config_actions_def)

lemma to_wstring_0: "to_wstring 0 = ''0''"
  by code_simp

lemma example_saving_checkpoint:
  "storage (SaveCheckpoint saving_env example_config_preserving 0 v)
     = (storage v) \<lparr> fexists := (fexists (storage v)) (''model0'' := True) \<rparr>"
  by (simp add: SaveCheckpoint_def saving_env_def toy_env_def Let_def
        example_config_preserving_def example_config_actions_def to_wstring_0)

theorem C1_action_fires_iff_index_differs_witness:
  "\<exists>shouldTrain ts' earlyExit' w' calls'.
     Train_iteration saving_env 0
       (example_session saving_env example_config_preserving, False, toy_world 35, [])
       = Some (shouldTrain, ts', earlyExit', w', calls')
     \<and> map currentIndex (m_actions ts') = [2, 0]
     \<and> map sampleCountWhenLastCalled (m_actions ts') = [25, 0]
     \<and> calls' = [Invocation 0 0 25]
     \<and> \<not> earlyExit'
     \<and> fexists (storage w') ''model0''
     \<and> \<not> fexists (storage w') ''model2''"
proof -
  let ?ts = "example_session saving_env example_config_preserving"
  let ?v = "snd (Train_minibatch saving_env 0 ?ts False (toy_world 35))"
  obtain shouldTrain ts' earlyExit' w' calls' where
    r: "Train_iteration saving_env 0 (?ts, False, toy_world 35, [])
          = Some (shouldTrain, ts', earlyExit', w', calls')"
    using example_saving_returns
    by (cases "Train_iteration saving_env 0 (?ts, False, toy_world 35, [])") auto
  have f: "\<forall>a \<in> set (m_actions ?ts). frequency a \<noteq> 0"
    by (simp add: example_saving_actions)
  from C1_action_fires_iff_index_differs [OF r f example_saving_total [symmetric]]
  have c: "map currentIndex (m_actions ts') = [2, 0]
      \<and> map sampleCountWhenLastCalled (m_actions ts') = [25, 0]
      \<and> calls' = [Invocation 0 0 25]
      \<and> \<not> earlyExit'
      \<and> w' = SaveCheckpoint saving_env example_config_preserving 0 ?v"
    by (simp add: example_saving_actions enumerate_simps)
  have s: "fexists (storage w') ''model0''" "\<not> fexists (storage w') ''model2''"
    using c example_saving_storage by (simp_all add: example_saving_checkpoint)
  show ?thesis
    by (rule exI [of _ shouldTrain], rule exI [of _ ts'], rule exI [of _ earlyExit'],
        rule exI [of _ w'], rule exI [of _ calls']) (use r c s in simp)
qed

subsection \<open>Restoring from a checkpoint\<close>

lemma nat_period_change:
  fixes t t' F :: nat
  assumes "0 < F" "t \<le> t'"
  shows "t' div F \<noteq> t div F \<longleftrightarrow> (t div F + 1) * F \<le> t'"
proof -
  have "t div F \<le> t' div F" using assms(2) by (rule div_le_mono)
  then have "t' div F \<noteq> t div F \<longleftrightarrow> t div F + 1 \<le> t' div F" by arith
  also have "\<dots> \<longleftrightarrow> (t div F + 1) * F \<le> t'"
    using assms(1) by (simp add: less_eq_div_iff_mult_less_eq)
  finally show ?thesis .
qed

lemma word_period_change:
  fixes T T' F :: size_t
  assumes "F \<noteq> 0" "T \<le> T'"
  shows "T' div F \<noteq> T div F \<longleftrightarrow> (unat T div unat F + 1) * unat F \<le> unat T'"
proof -
  have F: "0 < unat F" using assms(1) by (simp add: unat_gt_0)
  have le: "unat T \<le> unat T'" using assms(2) by (simp add: word_le_nat_alt)
  have "T' div F \<noteq> T div F \<longleftrightarrow> unat (T' div F) \<noteq> unat (T div F)"
    by (simp add: word_unat_eq_iff)
  also have "\<dots> \<longleftrightarrow> unat T' div unat F \<noteq> unat T div unat F"
    by (simp add: unat_div)
  also have "\<dots> \<longleftrightarrow> (unat T div unat F + 1) * unat F \<le> unat T'"
    using nat_period_change [OF F le] .
  finally show ?thesis .
qed

lemma recalculate_fields:
  "frequency (recalculate T a) = frequency a"
  "action (recalculate T a) = action a"
  "currentIndex (recalculate T a) = T div frequency a"
  "sampleCountWhenLastCalled (recalculate T a) = T - T mod frequency a"
  by (simp_all add: recalculate_def)

lemma RestoreFromCheckpoint_Inr:
  assumes "RestoreFromCheckpoint env ts w = Inr (ts', w')"
  shows "if find_restoreFile
              (make_intermediate_dirs env (m_checkPointFileName (m_config ts)) (storage w))
              (m_checkPointFileName (m_config ts)) = []
         then ts' = ts \<and> w' = w \<lparr> storage :=
                make_intermediate_dirs env (m_checkPointFileName (m_config ts)) (storage w) \<rparr>
         else ts' = ts \<lparr> m_actions :=
                map (recalculate (TotalNumberOfSamplesSeen env (trainer w'))) (m_actions ts) \<rparr>"
  using assms
  by (auto simp: RestoreFromCheckpoint_def Let_def split: if_splits sum.splits)

text \<open>
  C3. When \<open>RestoreFromCheckpoint\<close> finds a file and restores from it, then with \<open>T\<close> the
  total number of samples of the restored trainer every action of a frequency other than 0
  keeps its frequency and handler, its \<open>currentIndex\<close> is \<open>T div frequency\<close> and its
  \<open>sampleCountWhenLastCalled\<close> is \<open>T - T mod frequency\<close>. Firing resumes at the period that
  holds the restore point: at a later total \<open>T'\<close> the body of the loop leaves the action
  alone as long as \<open>T'\<close> is below the end \<open>(T div frequency + 1) * frequency\<close> of that period
  (no period completed before the restore fires again), and from that end on it calls the
  handler with the index \<open>T div frequency\<close> of that period (the period is not skipped).
\<close>

theorem C3_restore_recalculates_actions:
  assumes "RestoreFromCheckpoint env ts w = Inr (ts', w')"
      and "find_restoreFile
             (make_intermediate_dirs env (m_checkPointFileName (m_config ts)) (storage w))
             (m_checkPointFileName (m_config ts)) \<noteq> []"
      and "T = TotalNumberOfSamplesSeen env (trainer w')"
      and "k < length (m_actions ts)"
      and "a = m_actions ts ! k"
      and "a' = m_actions ts' ! k"
      and "frequency a \<noteq> 0"
  shows "length (m_actions ts') = length (m_actions ts)
       \<and> frequency a' = frequency a \<and> action a' = action a
       \<and> currentIndex a' = T div frequency a
       \<and> sampleCountWhenLastCalled a' = T - T mod frequency a
       \<and> (\<forall>T' dev j e v calls. T \<le> T' \<longrightarrow>
            (if unat T' < (unat T div unat (frequency a) + 1) * unat (frequency a)
             then Train_action T' dev j a' (e, v, calls) = Some (a', e, v, calls)
             else Train_action T' dev j a' (e, v, calls) =
                    (case action a (T div frequency a) dev v of
                       None \<Rightarrow> None
                     | Some (shouldContinue, v') \<Rightarrow>
                         Some (a' \<lparr> currentIndex := T' div frequency a,
                                    sampleCountWhenLastCalled := T' \<rparr>,
                               (if \<not> shouldContinue then True else e), v',
                               calls @ [Invocation j (T div frequency a) T']))))"
proof -
  from RestoreFromCheckpoint_Inr [OF assms(1)] assms(2,3)
  have ts': "ts' = ts \<lparr> m_actions := map (recalculate T) (m_actions ts) \<rparr>"
    by simp
  then have a': "a' = recalculate T a"
    using assms(4,5,6) by simp
  have resume: "Train_action T' dev j a' (e, v, calls) =
          (if unat T' < (unat T div unat (frequency a) + 1) * unat (frequency a)
           then Some (a', e, v, calls)
           else (case action a (T div frequency a) dev v of
                       None \<Rightarrow> None
                     | Some (shouldContinue, v') \<Rightarrow>
                         Some (a' \<lparr> currentIndex := T' div frequency a,
                                    sampleCountWhenLastCalled := T' \<rparr>,
                               (if \<not> shouldContinue then True else e), v',
                               calls @ [Invocation j (T div frequency a) T'])))"
    if le: "T \<le> T'" for T' dev j e v calls
    using word_period_change [OF assms(7) le]
    by (auto simp: Train_action_def a' recalculate_fields Let_def split: option.splits)
  show ?thesis
    using resume by (simp add: ts' a' recalculate_fields)
qed

lemma example_restore_returns:
  "(case RestoreFromCheckpoint (toy_env 25 True)
          (example_session (toy_env 25 True) (example_config_actions 25 100 10 0 100))
          ((toy_world 35) \<lparr> storage := toy_storage [''model''] \<rparr>) of
      Inl e \<Rightarrow> False
    | Inr p \<Rightarrow> fst (trainer (snd p)) = 25)"
  by code_simp

lemma example_restore_file:
  "find_restoreFile
     (make_intermediate_dirs (toy_env 25 True)
        (m_checkPointFileName (m_config
           (example_session (toy_env 25 True) (example_config_actions 25 100 10 0 100))))
        (storage ((toy_world 35) \<lparr> storage := toy_storage [''model''] \<rparr>)))
     (m_checkPointFileName (m_config
        (example_session (toy_env 25 True) (example_config_actions 25 100 10 0 100))))
   \<noteq> []"
  by code_simp

lemma example_restore_session:
  "length (m_actions (example_session (toy_env 25 True) (example_config_actions 25 100 10 0 100))) = 2
   \<and> frequency (m_actions (example_session (toy_env 25 True)
         (example_config_actions 25 100 10 0 100)) ! 0) = 10"
  by code_simp

theorem C3_restore_recalculates_actions_witness:
  "\<exists>ts' w'.
     RestoreFromCheckpoint (toy_env 25 True)
       (example_session (toy_env 25 True) (example_config_actions 25 100 10 0 100))
       ((toy_world 35) \<lparr> storage := toy_storage [''model''] \<rparr>) = Inr (ts', w')
     \<and> TotalNumberOfSamplesSeen (toy_env 25 True) (trainer w') = 25
     \<and> currentIndex (m_actions ts' ! 0) = 2
     \<and> sampleCountWhenLastCalled (m_actions ts' ! 0) = 20
     \<and> Train_action 29 0 0 (m_actions ts' ! 0) (False, w', [])
         = Some (m_actions ts' ! 0, False, w', [])
     \<and> Train_action 30 0 0 (m_actions ts' ! 0) (False, w', []) \<noteq>
         Some (m_actions ts' ! 0, False, w', [])"
proof -
  let ?env = "toy_env 25 True"
  let ?ts = "example_session ?env (example_config_actions 25 100 10 0 100)"
  let ?w = "(toy_world 35) \<lparr> storage := toy_storage [''model''] \<rparr>"
  obtain ts' w' where r: "RestoreFromCheckpoint ?env ?ts ?w = Inr (ts', w')"
    and t: "fst (trainer w') = 25"
    using example_restore_returns
    by (cases "RestoreFromCheckpoint ?env ?ts ?w") auto
  have T: "25 = TotalNumberOfSamplesSeen ?env (trainer w')"
    using t by (simp add: toy_env_def)
  have k: "0 < length (m_actions ?ts)" and f: "frequency (m_actions ?ts ! 0) \<noteq> 0"
    using example_restore_session by simp_all
  note c = C3_restore_recalculates_actions [OF r example_restore_file T k refl refl f]
  have fr: "frequency (m_actions ?ts ! 0) = 10"
    using example_restore_session by simp
  have c1: "currentIndex (m_actions ts' ! 0) = 2"
       "sampleCountWhenLastCalled (m_actions ts' ! 0) = 20"
    using c by (simp_all add: fr)
  have c2: "Train_action 29 0 0 (m_actions ts' ! 0) (False, w', [])
         = Some (m_actions ts' ! 0, False, w', [])"
    using c by (simp add: fr)
  have c3: "Train_action 30 0 0 (m_actions ts' ! 0) (False, w', []) \<noteq>
         Some (m_actions ts' ! 0, False, w', [])"
    using c by (auto simp add: fr split: option.splits)
  show ?thesis
    by (rule exI [of _ ts'], rule exI [of _ w']) (use r T c1 c2 c3 in simp)
qed

subsection \<open>The invariant of the actions\<close>

lemma nat_div_eq_iff:
  fixes m n q :: nat
  assumes "0 < n"
  shows "m div n = q \<longleftrightarrow> n * q \<le> m \<and> m < n * (q + 1)"
proof
  assume "m div n = q"
  then show "n * q \<le> m \<and> m < n * (q + 1)"
    using assms dividend_less_times_div [of n m] by auto
next
  assume "n * q \<le> m \<and> m < n * (q + 1)"
  then show "m div n = q"
    by (intro div_nat_eqI) simp_all
qed

lemma action_invariant_iff:
  assumes "frequency a \<noteq> 0"
  shows "action_invariant a
         \<longleftrightarrow> sampleCountWhenLastCalled a div frequency a = currentIndex a"
proof -
  have F: "0 < unat (frequency a)" using assms by (simp add: unat_gt_0)
  have "sampleCountWhenLastCalled a div frequency a = currentIndex a
        \<longleftrightarrow> unat (sampleCountWhenLastCalled a) div unat (frequency a) = unat (currentIndex a)"
    by (simp add: word_unat_eq_iff unat_div)
  then show ?thesis
    using nat_div_eq_iff [OF F] by (simp add: action_invariant_def)
qed

lemma action_invariant_frequency: "action_invariant a \<Longrightarrow> frequency a \<noteq> 0"
  by (auto simp: action_invariant_def)

lemma word_floor_div:
  fixes T F :: size_t
  assumes "F \<noteq> 0"
  shows "(T - T mod F) div F = T div F"
proof -
  have le: "T mod F \<le> T" by (simp add: word_le_nat_alt unat_mod)
  have "unat (T - T mod F) = unat T - unat T mod unat F"
    using le by (simp add: unat_sub unat_mod)
  then have "unat ((T - T mod F) div F) = unat (T div F)"
    by (simp add: unat_div minus_mod_eq_mult_div)
  then show ?thesis by (simp add: word_unat_eq_iff)
qed

lemma action_invariant_fired:
  "frequency a \<noteq> 0 \<Longrightarrow>
   action_invariant (a \<lparr> currentIndex := T div frequency a, sampleCountWhenLastCalled := T \<rparr>)"
  by (simp add: action_invariant_iff)

lemma action_invariant_recalculate:
  "frequency a \<noteq> 0 \<Longrightarrow> action_invariant (recalculate T a)"
  by (simp add: action_invariant_iff recalculate_def word_floor_div)

lemma Train_actions_invariant:
  assumes "Train_actions T dev k as (e, w, calls) = Some (as', e', w', calls')"
      and "\<forall>a \<in> set as. action_invariant a"
  shows "\<forall>a \<in> set as'. action_invariant a"
  using Train_actions_Some [OF assms(1)] assms(2)
  by (auto simp: action_invariant_fired action_invariant_frequency)

lemma Train_iteration_invariant:
  assumes "Train_iteration env dev (ts, e, w, calls) = Some (sh, ts', e', w', calls')"
      and "\<forall>a \<in> set (m_actions ts). action_invariant a"
  shows "\<forall>a \<in> set (m_actions ts'). action_invariant a"
proof -
  from Train_iteration_Some [OF assms(1)] obtain as' where
    a: "Train_actions
          (TotalNumberOfSamplesSeen env (trainer (snd (Train_minibatch env dev ts e w))))
          dev 0 (m_actions ts) (e, snd (Train_minibatch env dev ts e w), calls)
        = Some (as', e', w', calls')"
    and t: "ts' = ts \<lparr> m_actions := as' \<rparr>"
    by auto
  from Train_actions_invariant [OF a assms(2)] t show ?thesis by simp
qed

lemma Train_loop_rule:
  assumes "Train_loop env dev st = Some st'"
      and "I st"
      and "\<And>s sh s'. I s \<Longrightarrow> Train_iteration env dev s = Some (sh, s') \<Longrightarrow> I s'"
  shows "I st'"
proof -
  have "(\<forall>s sh s'. I s \<longrightarrow> Train_iteration env dev s = Some (sh, s') \<longrightarrow> I s') \<longrightarrow> I st \<longrightarrow> I st'"
  proof (rule Train_loop.raw_induct [where P = "\<lambda>e d s r.
           (\<forall>s sh s'. I s \<longrightarrow> Train_iteration e d s = Some (sh, s') \<longrightarrow> I s') \<longrightarrow> I s \<longrightarrow> I r",
           OF _ assms(1)])
    fix loop :: "('a, 'b, 'c, 'd) Env \<Rightarrow> nat \<Rightarrow> _ \<Rightarrow> _ option"
    fix e d s r
    assume ih: "\<And>e d s r. loop e d s = Some r \<Longrightarrow>
           (\<forall>s sh s'. I s \<longrightarrow> Train_iteration e d s = Some (sh, s') \<longrightarrow> I s') \<longrightarrow> I s \<longrightarrow> I r"
      and body: "(case Train_iteration e d s of None \<Rightarrow> None
                  | Some (shouldTrain, st') \<Rightarrow> if shouldTrain then loop e d st' else Some st')
                 = Some r"
    show "(\<forall>s sh s'. I s \<longrightarrow> Train_iteration e d s = Some (sh, s') \<longrightarrow> I s') \<longrightarrow> I s \<longrightarrow> I r"
    proof (intro impI)
      assume step: "\<forall>s sh s'. I s \<longrightarrow> Train_iteration e d s = Some (sh, s') \<longrightarrow> I s'"
        and i: "I s"
      from body obtain sh s1 where
        it: "Train_iteration e d s = Some (sh, s1)"
        and rest: "(if sh then loop e d s1 else Some s1) = Some r"
        by (auto split: option.splits)
      from step i it have i1: "I s1" by blast
      show "I r"
      proof (cases sh)
        case True
        with rest have "loop e d s1 = Some r" by simp
        from ih [OF this] step i1 show ?thesis by blast
      next
        case False
        with rest i1 show ?thesis by simp
      qed
    qed
  qed
  with assms show ?thesis by blast
qed

lemma Train_flush_Some:
  assumes "Train_flush env dev k as (w, calls) = Some (w', calls')"
  shows "\<exists>new. calls' = calls @ new"
  using assms
proof (induction as arbitrary: k w calls)
  case Nil
  then show ?case by simp
next
  case (Cons a as)
  show ?case
  proof (cases "TotalNumberOfSamplesSeen env (trainer w) mod frequency a \<noteq> 0
                \<and> TotalNumberOfSamplesSeen env (trainer w) \<noteq> sampleCountWhenLastCalled a")
    case True
    with Cons.prems obtain r w1 where
      "Train_flush env dev (Suc k) as
         (w1, calls @ [Invocation k (currentIndex a) (TotalNumberOfSamplesSeen env (trainer w))])
       = Some (w', calls')"
      by (auto simp: Let_def split: option.splits)
    from Cons.IH [OF this] show ?thesis by auto
  next
    case False
    with Cons.prems have "Train_flush env dev (Suc k) as (w, calls) = Some (w', calls')"
      by (auto simp: Let_def)
    from Cons.IH [OF this] show ?thesis .
  qed
qed

lemma ctor_actions:
  assumes "TrainingSession_ctor env trainerPtr cfg = Inr (ts, t)"
  shows "\<forall>a \<in> set (m_actions ts).
           frequency a \<noteq> 0 \<and> currentIndex a = 0 \<and> sampleCountWhenLastCalled a = 0"
  using assms
  by (auto simp: TrainingSession_ctor_def checkpoint_actions_def crossValidation_actions_def
        progress_actions_def split: option.splits prod.splits if_splits)

lemma action_invariant_initial:
  "frequency a \<noteq> 0 \<Longrightarrow> currentIndex a = 0 \<Longrightarrow> sampleCountWhenLastCalled a = 0 \<Longrightarrow>
   action_invariant a"
  by (simp add: action_invariant_iff)

lemma RestoreFromCheckpoint_invariant:
  assumes "RestoreFromCheckpoint env ts w = Inr (ts', w')"
      and "\<forall>a \<in> set (m_actions ts). action_invariant a"
  shows "\<forall>a \<in> set (m_actions ts'). action_invariant a"
  using RestoreFromCheckpoint_Inr [OF assms(1)] assms(2)
  by (auto simp: action_invariant_recalculate action_invariant_frequency split: if_splits)

lemma Train_loop_invariant:
  assumes "Train_loop env dev (ts, e, w, calls) = Some (ts', e', w', calls')"
      and "\<forall>a \<in> set (m_actions ts). action_invariant a"
  shows "\<forall>a \<in> set (m_actions ts'). action_invariant a"
proof -
  have "(\<lambda>s. \<forall>a \<in> set (m_actions (fst s)). action_invariant a) (ts', e', w', calls')"
  proof (rule Train_loop_rule [OF assms(1)])
    show "\<forall>a \<in> set (m_actions (fst (ts, e, w, calls))). action_invariant a"
      using assms(2) by simp
  next
    fix s sh s'
    assume i: "\<forall>a \<in> set (m_actions (fst s)). action_invariant a"
      and it: "Train_iteration env dev s = Some (sh, s')"
    obtain ts1 e1 w1 c1 where s: "s = (ts1, e1, w1, c1)" by (cases s)
    obtain ts2 e2 w2 c2 where s': "s' = (ts2, e2, w2, c2)" by (cases s')
    from Train_iteration_invariant [OF it [unfolded s s']] i s s'
    show "\<forall>a \<in> set (m_actions (fst s')). action_invariant a" by simp
  qed
  then show ?thesis by simp
qed

lemma Train_Inr:
  assumes "Train env dev ts w = Some (Inr (ts', w', calls'))"
  shows "\<exists>ts1 w1 n e2 w2 calls2.
           Train_restore env ts w = Inr (ts1, w1, n)
         \<and> (if m_maxNumTrainingSamples (m_config ts) > 0
             then Train_loop env dev (ts1, False, w1, [])
             else Some (ts1, False, w1, [])) = Some (ts', e2, w2, calls2)
         \<and> Train_finish env dev ts' n (w2, calls2) = Some (w', calls')"
  using assms
  by (cases "m_maxNumTrainingSamples (m_config ts) > 0")
     (auto simp: Train_def Let_def split: sum.splits option.splits prod.splits)

lemma Train_restore_Inr:
  assumes "Train_restore env ts w = Inr (ts1, w1, n)"
  shows "(ts1 = ts \<and> w1 = w \<and> n = 0)
       \<or> (RestoreFromCheckpoint env ts w = Inr (ts1, w1)
          \<and> n = TotalNumberOfSamplesSeen env (trainer w1))"
  using assms
  by (auto simp: Train_restore_def split: if_splits sum.splits)

lemma Train_invariant:
  assumes "Train env dev ts w = Some (Inr (ts', w', calls'))"
      and "\<forall>a \<in> set (m_actions ts). action_invariant a"
  shows "\<forall>a \<in> set (m_actions ts'). action_invariant a"
proof -
  from Train_Inr [OF assms(1)] obtain ts1 w1 n e2 w2 calls2 where
    r: "Train_restore env ts w = Inr (ts1, w1, n)"
    and l: "(if m_maxNumTrainingSamples (m_config ts) > 0
             then Train_loop env dev (ts1, False, w1, [])
             else Some (ts1, False, w1, [])) = Some (ts', e2, w2, calls2)"
    by blast
  from Train_restore_Inr [OF r] assms(2)
  have i1: "\<forall>a \<in> set (m_actions ts1). action_invariant a"
    using RestoreFromCheckpoint_invariant by blast
  show ?thesis
  proof (cases "m_maxNumTrainingSamples (m_config ts) > 0")
    case True
    with l have "Train_loop env dev (ts1, False, w1, []) = Some (ts', e2, w2, calls2)"
      by simp
    from Train_loop_invariant [OF this i1] show ?thesis .
  next
    case False
    with l i1 show ?thesis by simp
  qed
qed

text \<open>
  C10. An action satisfies the invariant when, as numbers,
  \<open>frequency * currentIndex \<le> sampleCountWhenLastCalled < frequency * (currentIndex + 1)\<close>;
  for a frequency other than 0 this is \<open>sampleCountWhenLastCalled div frequency = currentIndex\<close>.
  The actions that the constructor builds have a frequency other than 0, both fields 0,
  and satisfy the invariant; an iteration of the main loop that returns preserves the
  invariant of all actions, whatever the trainer reports; a restore from a checkpoint that
  was found establishes it for all actions of a frequency other than 0; and a call of
  \<open>Train\<close> that returns without an error preserves it.
\<close>

theorem C10_action_invariant:
  "(TrainingSession_ctor env trainerPtr cfg = Inr (ts0, t0) \<longrightarrow>
      (\<forall>a \<in> set (m_actions ts0).
          frequency a \<noteq> 0 \<and> currentIndex a = 0 \<and> sampleCountWhenLastCalled a = 0
          \<and> action_invariant a))
   \<and> (frequency b \<noteq> 0 \<longrightarrow>
        (action_invariant b \<longleftrightarrow> sampleCountWhenLastCalled b div frequency b = currentIndex b))
   \<and> ((\<forall>a \<in> set (m_actions ts). action_invariant a) \<longrightarrow>
        Train_iteration env dev (ts, e, w, calls) = Some (sh, ts1, e1, w1, calls1) \<longrightarrow>
        (\<forall>a \<in> set (m_actions ts1). action_invariant a))
   \<and> ((\<forall>a \<in> set (m_actions ts). frequency a \<noteq> 0) \<longrightarrow>
        RestoreFromCheckpoint env ts w = Inr (ts2, w2) \<longrightarrow>
        find_restoreFile
          (make_intermediate_dirs env (m_checkPointFileName (m_config ts)) (storage w))
          (m_checkPointFileName (m_config ts)) \<noteq> [] \<longrightarrow>
        (\<forall>a \<in> set (m_actions ts2). action_invariant a))
   \<and> ((\<forall>a \<in> set (m_actions ts). action_invariant a) \<longrightarrow>
        Train env dev ts w = Some (Inr (ts3, w3, calls3)) \<longrightarrow>
        (\<forall>a \<in> set (m_actions ts3). action_invariant a))"
proof (intro conjI impI)
  assume "TrainingSession_ctor env trainerPtr cfg = Inr (ts0, t0)"
  from ctor_actions [OF this]
  show "\<forall>a \<in> set (m_actions ts0).
          frequency a \<noteq> 0 \<and> currentIndex a = 0 \<and> sampleCountWhenLastCalled a = 0
          \<and> action_invariant a"
    by (auto simp: action_invariant_initial)
next
  assume "frequency b \<noteq> 0"
  then show "action_invariant b \<longleftrightarrow> sampleCountWhenLastCalled b div frequency b = currentIndex b"
    by (rule action_invariant_iff)
next
  assume "\<forall>a \<in> set (m_actions ts). action_invariant a"
    and "Train_iteration env dev (ts, e, w, calls) = Some (sh, ts1, e1, w1, calls1)"
  then show "\<forall>a \<in> set (m_actions ts1). action_invariant a"
    using Train_iteration_invariant by blast
next
  assume f: "\<forall>a \<in> set (m_actions ts). frequency a \<noteq> 0"
    and r: "RestoreFromCheckpoint env ts w = Inr (ts2, w2)"
    and n: "find_restoreFile
          (make_intermediate_dirs env (m_checkPointFileName (m_config ts)) (storage w))
          (m_checkPointFileName (m_config ts)) \<noteq> []"
  from RestoreFromCheckpoint_Inr [OF r] n f
  show "\<forall>a \<in> set (m_actions ts2). action_invariant a"
    by (auto simp: action_invariant_recalculate)
next
  assume "\<forall>a \<in> set (m_actions ts). action_invariant a"
    and "Train env dev ts w = Some (Inr (ts3, w3, calls3))"
  then show "\<forall>a \<in> set (m_actions ts3). action_invariant a"
    using Train_invariant by blast
qed

lemma example_ctor:
  "TrainingSession_ctor (toy_env r c) (Some (0, 0)) cfg = Inr (example_session (toy_env r c) cfg, (0, 0))"
  by (simp add: TrainingSession_ctor_def example_session_def toy_env_def)

lemma example_train_returns:
  "(case Train (toy_env 0 True) 0
           (example_session (toy_env 0 True) (example_config_actions 25 100 10 0 100))
           (toy_world 35) of
      Some (Inr (ts, w, calls)) \<Rightarrow>
        map currentIndex (m_actions ts) = [3, 0]
        \<and> map sampleCountWhenLastCalled (m_actions ts) = [35, 0]
        \<and> calls = [Invocation 0 0 25, Invocation 0 2 35, Invocation 1 0 35]
    | _ \<Rightarrow> False)"
  by code_simp

theorem C10_action_invariant_witness:
  "\<exists>ts1 ts2 ts3.
     (\<exists>sh e1 w1 calls1. Train_iteration (toy_env 0 True) 0
        (example_session (toy_env 0 True) (example_config_actions 25 100 10 0 100),
         False, toy_world 35, []) = Some (sh, ts1, e1, w1, calls1))
     \<and> (\<exists>w2. RestoreFromCheckpoint (toy_env 25 True)
           (example_session (toy_env 25 True) (example_config_actions 25 100 10 0 100))
           ((toy_world 35) \<lparr> storage := toy_storage [''model''] \<rparr>) = Inr (ts2, w2))
     \<and> (\<exists>w3 calls3. Train (toy_env 0 True) 0
           (example_session (toy_env 0 True) (example_config_actions 25 100 10 0 100))
           (toy_world 35) = Some (Inr (ts3, w3, calls3)))
     \<and> list_all action_invariant
         (m_actions (example_session (toy_env 0 True) (example_config_actions 25 100 10 0 100)))
     \<and> list_all action_invariant (m_actions ts1)
     \<and> list_all action_invariant (m_actions ts2)
     \<and> list_all action_invariant (m_actions ts3)
     \<and> list_all (\<lambda>b. sampleCountWhenLastCalled b div frequency b = currentIndex b) (m_actions ts3)
     \<and> map currentIndex (m_actions ts3) = [3, 0]
     \<and> map sampleCountWhenLastCalled (m_actions ts3) = [35, 0]"
proof -
  let ?env = "toy_env 0 True"
  let ?cfg = "example_config_actions 25 100 10 0 100"
  let ?ts = "example_session ?env ?cfg"
  let ?tsr = "example_session (toy_env 25 True) ?cfg"
  let ?wr = "(toy_world 35) \<lparr> storage := toy_storage [''model''] \<rparr>"
  obtain ts3 w3 calls3 where
    r: "Train ?env 0 ?ts (toy_world 35) = Some (Inr (ts3, w3, calls3))"
    and v: "map currentIndex (m_actions ts3) = [3, 0]"
           "map sampleCountWhenLastCalled (m_actions ts3) = [35, 0]"
    using example_train_returns
    by (auto split: option.splits sum.splits)
  obtain sh ts1 e1 w1 calls1 where
    it: "Train_iteration ?env 0 (?ts, False, toy_world 35, []) = Some (sh, ts1, e1, w1, calls1)"
    using example_iteration_returns
    by (cases "Train_iteration ?env 0 (?ts, False, toy_world 35, [])") auto
  obtain ts2 w2 where re: "RestoreFromCheckpoint (toy_env 25 True) ?tsr ?wr = Inr (ts2, w2)"
    using example_restore_returns
    by (cases "RestoreFromCheckpoint (toy_env 25 True) ?tsr ?wr") auto
  have c0: "\<forall>a \<in> set (m_actions ?ts). frequency a \<noteq> 0 \<and> currentIndex a = 0
               \<and> sampleCountWhenLastCalled a = 0 \<and> action_invariant a"
    by (rule C10_action_invariant [THEN conjunct1, THEN mp, OF example_ctor])
  then have i0: "\<forall>a \<in> set (m_actions ?ts). action_invariant a"
    by simp
  have cr: "\<forall>a \<in> set (m_actions ?tsr). frequency a \<noteq> 0 \<and> currentIndex a = 0
               \<and> sampleCountWhenLastCalled a = 0 \<and> action_invariant a"
    by (rule C10_action_invariant [THEN conjunct1, THEN mp, OF example_ctor])
  then have fr: "\<forall>a \<in> set (m_actions ?tsr). frequency a \<noteq> 0"
    by simp
  have i1: "\<forall>a \<in> set (m_actions ts1). action_invariant a"
    by (rule C10_action_invariant [THEN conjunct2, THEN conjunct2, THEN conjunct1,
          THEN mp, OF i0, THEN mp, OF it])
  have i2: "\<forall>a \<in> set (m_actions ts2). action_invariant a"
    by (rule C10_action_invariant [THEN conjunct2, THEN conjunct2, THEN conjunct2, THEN conjunct1,
          THEN mp, OF fr, THEN mp, OF re, THEN mp, OF example_restore_file])
  have i3: "\<forall>a \<in> set (m_actions ts3). action_invariant a"
    by (rule C10_action_invariant [THEN conjunct2, THEN conjunct2, THEN conjunct2, THEN conjunct2,
          THEN mp, OF i0, THEN mp, OF r])
  have d3: "sampleCountWhenLastCalled b div frequency b = currentIndex b"
    if "b \<in> set (m_actions ts3)" for b
  proof -
    from that i3 have "action_invariant b" by blast
    moreover from this have "frequency b \<noteq> 0"
      by (auto simp: action_invariant_def)
    ultimately show ?thesis
      using C10_action_invariant [where b = b and env = ?env, THEN conjunct2, THEN conjunct1]
      by simp
  qed
  have a1: "\<exists>sh e1 w1 calls1. Train_iteration ?env 0 (?ts, False, toy_world 35, [])
              = Some (sh, ts1, e1, w1, calls1)"
    using it by blast
  have a2: "\<exists>w2. RestoreFromCheckpoint (toy_env 25 True) ?tsr ?wr = Inr (ts2, w2)"
    using re by blast
  have a3: "\<exists>w3 calls3. Train ?env 0 ?ts (toy_world 35) = Some (Inr (ts3, w3, calls3))"
    using r by blast
  have l0: "list_all action_invariant (m_actions ?ts)"
    using i0 by (simp add: list_all_iff)
  have l1: "list_all action_invariant (m_actions ts1)"
    using i1 by (simp add: list_all_iff)
  have l2: "list_all action_invariant (m_actions ts2)"
    using i2 by (simp add: list_all_iff)
  have l3: "list_all action_invariant (m_actions ts3)"
    using i3 by (simp add: list_all_iff)
  have l4: "list_all (\<lambda>b. sampleCountWhenLastCalled b div frequency b = currentIndex b)
              (m_actions ts3)"
    using d3 by (simp add: list_all_iff)
  show ?thesis
    by (rule exI [of _ ts1], rule exI [of _ ts2], rule exI [of _ ts3])
       (intro conjI a1 a2 a3 l0 l1 l2 l3 l4 v)
qed

subsection \<open>Fetching minibatches\<close>

lemma umap_index_lookup:
  assumes "umap_index dflt m k = (d, m')"
  shows "d = (case map_of m k of Some v \<Rightarrow> v | None \<Rightarrow> dflt)"
    and "(case map_of m' j of Some v \<Rightarrow> v | None \<Rightarrow> dflt)
         = (case map_of m j of Some v \<Rightarrow> v | None \<Rightarrow> dflt)"
  using assms
  by (auto simp: umap_index_def map_add_def split: option.splits if_splits)

lemma umap_insert_fresh:
  "k \<notin> fst ` set m \<Longrightarrow> umap_insert m k v = m @ [(k, v)]"
  by (auto simp: umap_insert_def map_of_eq_None_iff split: option.splits)

lemma remap_eq:
  assumes "distinct (map fst vs)"
      and "fst ` set mb \<inter> fst ` set vs = {}"
      and "\<And>s. (case map_of md' s of Some d \<Rightarrow> d | None \<Rightarrow> default_MinibatchData)
               = (case map_of md s of Some d \<Rightarrow> d | None \<Rightarrow> default_MinibatchData)"
  shows "remap vs mb md'
         = mb @ map (\<lambda>v. (fst v, case map_of md (snd v) of Some d \<Rightarrow> data d | None \<Rightarrow> None)) vs"
  using assms
proof (induction vs arbitrary: mb md')
  case Nil
  then show ?case by simp
next
  case (Cons v vs)
  obtain d md'' where u: "umap_index default_MinibatchData md' (snd v) = (d, md'')"
    by (cases "umap_index default_MinibatchData md' (snd v)")
  note l = umap_index_lookup [OF u]
  have d: "data d = (case map_of md (snd v) of Some d \<Rightarrow> data d | None \<Rightarrow> None)"
    using l(1) Cons.prems(3) [of "snd v"]
    by (auto simp: default_MinibatchData_def split: option.splits)
  have fresh: "fst v \<notin> fst ` set mb" using Cons.prems(2) by auto
  have ins: "umap_insert mb (fst v) (data d) = mb @ [(fst v, data d)]"
    using fresh by (rule umap_insert_fresh)
  have "remap vs (mb @ [(fst v, data d)]) md''
        = (mb @ [(fst v, data d)])
          @ map (\<lambda>v. (fst v, case map_of md (snd v) of Some d \<Rightarrow> data d | None \<Rightarrow> None)) vs"
  proof (rule Cons.IH)
    show "distinct (map fst vs)" using Cons.prems(1) by simp
    show "fst ` set (mb @ [(fst v, data d)]) \<inter> fst ` set vs = {}"
      using Cons.prems(1,2) by auto
    show "(case map_of md'' s of Some d \<Rightarrow> d | None \<Rightarrow> default_MinibatchData)
          = (case map_of md s of Some d \<Rightarrow> d | None \<Rightarrow> default_MinibatchData)" for s
      using l(2) [of s] Cons.prems(3) [of s] by simp
  qed
  then show ?case
    using u ins d by simp
qed

text \<open>
  C9, as stated, fails: the fetch below returns data for stream 0 only, the mapping reads
  variable 1 from stream 7, and \<open>GetNextMinibatch\<close> returns a minibatch in which variable 1
  holds the null pointer; nothing is raised.
\<close>

theorem C9_counterexample:
  "map fst (fst (Source_GetNextMinibatch (toy_env 0 True) 0 10 1 0 0 (sources (toy_world 35) 0)))
     = [0]
   \<and> fst (GetNextMinibatch (toy_env 0 True)
            ((example_config 10 100) \<lparr> m_inputVarToStream := [(0, 0), (1, 7)] \<rparr>)
            0 10 0 1 0 (toy_world 35))
     = [(0, Some 10), (1, None)]"
  by code_simp

text \<open>
  C9, amended. When the requested size is not 0 and the fetch returns a non-empty result,
  \<open>GetNextMinibatch\<close> returns one entry for each pair of the mapping (whose variables
  are distinct), in the order of the mapping: the variable with the data of its stream,
  and with the null pointer when the stream is not in the fetch result. A mapping target
  that is missing from the fetch result raises no error: its variable is in the minibatch
  with a null value.
\<close>

theorem C9_missing_stream_gives_null_entry:
  assumes "mbSize \<noteq> 0"
      and "Source_GetNextMinibatch env 0 mbSize numberOfWorkers workerRank dev (sources w source)
             = (minibatchData, s')"
      and "minibatchData \<noteq> []"
      and "distinct (map fst (m_inputVarToStream cfg))"
  shows "GetNextMinibatch env cfg source mbSize workerRank numberOfWorkers dev w
           = (map (\<lambda>v. (fst v, case map_of minibatchData (snd v) of
                                  Some d \<Rightarrow> data d | None \<Rightarrow> None))
                  (m_inputVarToStream cfg),
              w \<lparr> sources := (sources w)(source := s') \<rparr>)
       \<and> (\<forall>v \<in> set (m_inputVarToStream cfg).
             snd v \<notin> fst ` set minibatchData \<longrightarrow>
             map_of (fst (GetNextMinibatch env cfg source mbSize workerRank numberOfWorkers dev w))
               (fst v) = Some None)"
proof -
  let ?f = "\<lambda>v. (fst v, case map_of minibatchData (snd v) of
                                  Some d \<Rightarrow> data d | None \<Rightarrow> None)"
  have r: "remap (m_inputVarToStream cfg) [] minibatchData = [] @ map ?f (m_inputVarToStream cfg)"
    by (rule remap_eq) (use assms(4) in simp_all)
  have g: "GetNextMinibatch env cfg source mbSize workerRank numberOfWorkers dev w
           = (map ?f (m_inputVarToStream cfg), w \<lparr> sources := (sources w)(source := s') \<rparr>)"
    using assms(1,2,3) r by (simp add: GetNextMinibatch_def Let_def)
  have "map_of (map ?f (m_inputVarToStream cfg)) (fst v) = Some None"
    if v: "v \<in> set (m_inputVarToStream cfg)" and m: "snd v \<notin> fst ` set minibatchData" for v
  proof -
    have n: "map_of minibatchData (snd v) = None"
      using m by (simp add: map_of_eq_None_iff)
    have dist: "distinct (map fst (map ?f (m_inputVarToStream cfg)))"
      using assms(4) by (simp add: comp_def)
    have "(fst v, None) \<in> set (map ?f (m_inputVarToStream cfg))"
      using v n by (force simp: image_iff)
    with dist show ?thesis by (rule map_of_is_SomeI)
  qed
  with g show ?thesis by simp
qed

theorem C9_missing_stream_gives_null_entry_witness:
  "fst (GetNextMinibatch (toy_env 0 True)
            ((example_config 10 100) \<lparr> m_inputVarToStream := [(0, 0), (1, 7)] \<rparr>)
            0 10 0 1 0 (toy_world 35))
     = [(0, Some 10), (1, None)]
   \<and> map_of (fst (GetNextMinibatch (toy_env 0 True)
            ((example_config 10 100) \<lparr> m_inputVarToStream := [(0, 0), (1, 7)] \<rparr>)
            0 10 0 1 0 (toy_world 35))) 1 = Some None"
proof -
  let ?env = "toy_env 0 True"
  let ?cfg = "(example_config 10 100) \<lparr> m_inputVarToStream := [(0, 0), (1, 7)] \<rparr>"
  let ?md = "[(0, \<lparr> data = Some 10, numberOfSequences = 1, numberOfSamples = 10 \<rparr>)]"
  have s: "(10 :: size_t) \<noteq> 0" by simp
  have f: "Source_GetNextMinibatch ?env 0 10 1 0 0 (sources (toy_world 35) 0) = (?md, 25)"
    by (simp add: toy_env_def toy_world_def toy_fetch_def)
  have n: "?md \<noteq> []" by simp
  have d: "distinct (map fst (m_inputVarToStream ?cfg))"
    by (simp add: example_config_def)
  have m: "m_inputVarToStream ?cfg = [(0, 0), (1, 7)]"
    by (simp add: example_config_def)
  from C9_missing_stream_gives_null_entry [OF s f n d]
  show ?thesis by (simp add: m)
qed

text \<open>
  C6. \<open>GetTrainingMinibatch\<close> passes to \<open>GetNextMinibatch\<close> the rank 0 and the worker
  count 1 when the samples seen by the trainer are below \<open>m_parallelAfterSamples\<close>, whatever
  rank and count the session holds, and the rank and count of the session otherwise; the
  size is the smaller of the scheduled size and the given bound. When that size is not 0,
  the training source is asked with the same rank and count, and the state it returns is
  stored in the world.
\<close>

theorem C6_warm_up_uses_single_worker:
  "GetTrainingMinibatch env ts maxMbSize dev w =
     (if TotalNumberOfSamplesSeen env (trainer w) < m_parallelAfterSamples ts
      then GetNextMinibatch env (m_config ts) (m_mbSource (m_config ts))
             (min (GetMinibatchSize env ts w) maxMbSize) 0 1 dev w
      else GetNextMinibatch env (m_config ts) (m_mbSource (m_config ts))
             (min (GetMinibatchSize env ts w) maxMbSize)
             (m_workerRank ts) (m_numberOfWorkers ts) dev w)
   \<and> (if TotalNumberOfSamplesSeen env (trainer w) < m_parallelAfterSamples ts
      then GetTrainingMinibatch env (ts \<lparr> m_workerRank := rank, m_numberOfWorkers := workers \<rparr>)
             maxMbSize dev w
           = GetTrainingMinibatch env ts maxMbSize dev w
      else True)
   \<and> (if min (GetMinibatchSize env ts w) maxMbSize = 0
      then GetTrainingMinibatch env ts maxMbSize dev w = ([], w)
      else sources (snd (GetTrainingMinibatch env ts maxMbSize dev w))
             (m_mbSource (m_config ts))
           = snd (Source_GetNextMinibatch env 0 (min (GetMinibatchSize env ts w) maxMbSize)
                    (if TotalNumberOfSamplesSeen env (trainer w) < m_parallelAfterSamples ts
                     then 1 else m_numberOfWorkers ts)
                    (if TotalNumberOfSamplesSeen env (trainer w) < m_parallelAfterSamples ts
                     then 0 else m_workerRank ts)
                    dev (sources w (m_mbSource (m_config ts)))))"
  by (auto simp: GetTrainingMinibatch_def GetMinibatchSize_def GetNextMinibatch_def Let_def
        split: prod.splits)

subsection \<open>Checkpoint discovery\<close>

text \<open>
  C4 at the checkpoint path \<^verbatim>\<open>out/model\<close>: no file of that name exists, the directory
  \<^verbatim>\<open>out\<close> holds \<^verbatim>\<open>model3\<close> and \<^verbatim>\<open>model3.ckp\<close>. The file name that the entries are compared
  with is \<^verbatim>\<open>/model\<close>, no entry starts with it, and no file is chosen: the session restores
  nothing, the trainer keeps its samples and the actions their indices. Without a
  separator in the path the highest number is chosen, from the directory \<^verbatim>\<open>..\<close>.
\<close>

theorem C4_discovery_with_directory:
  "split_checkpoint ''out/model'' = (''out'', ''/model'')
   \<and> find_restoreFile storage_out ''out/model'' = []
   \<and> (case RestoreFromCheckpoint (toy_env 25 True)
          ((example_session (toy_env 25 True) (example_config_actions 25 100 10 0 100))
             \<lparr> m_config := (example_config_actions 25 100 10 0 100)
                              \<lparr> m_checkPointFileName := ''out/model'' \<rparr> \<rparr>)
          ((toy_world 35) \<lparr> storage := storage_out \<rparr>) of
        Inl e \<Rightarrow> False
      | Inr (ts, w) \<Rightarrow> map currentIndex (m_actions ts) = [0, 0] \<and> trainer w = (0, 0))
   \<and> find_restoreFile storage_numbered ''model'' = ''../model10''"
  by code_simp

text \<open>The number of a candidate is compared as an \<^verbatim>\<open>int\<close>: the suffix 4294967296 is read as
  0, and the checkpoint with the number 5 is chosen.\<close>

lemma discovery_with_large_suffix:
  "strtol10 ''4294967296'' = (0, 10)
   \<and> find_restoreFile storage_large ''model'' = ''../model5''"
  by code_simp

subsection \<open>Early exit\<close>


















subsection \<open>The calls of a handler along a run\<close>

lemma indices_passed_append [simp]:
  "indices_passed k (xs @ ys) = indices_passed k xs @ indices_passed k ys"
  by (simp add: indices_passed_def)

lemma indices_passed_Nil [simp]: "indices_passed k [] = []"
  by (simp add: indices_passed_def)

lemma indices_passed_single [simp]:
  "indices_passed k [Invocation j i T] = (if j = k then [unat i] else [])"
  by (simp add: indices_passed_def)

























subsection \<open>Cross-validation\<close>

lemma GetNextMinibatch_frame:
  "trainer (snd (GetNextMinibatch env cfg source mbSize rank workers dev w)) = trainer w"
  "hooks (snd (GetNextMinibatch env cfg source mbSize rank workers dev w)) = hooks w"
  "storage (snd (GetNextMinibatch env cfg source mbSize rank workers dev w)) = storage w"
  "p \<noteq> source \<Longrightarrow>
     sources (snd (GetNextMinibatch env cfg source mbSize rank workers dev w)) p = sources w p"
  by (simp_all add: GetNextMinibatch_def Let_def split: prod.splits)

lemma GetNextMinibatch_source:
  assumes "sources w2 source = sources w source"
  shows "fst (GetNextMinibatch env cfg source mbSize rank workers dev w2)
         = fst (GetNextMinibatch env cfg source mbSize rank workers dev w)"
    and "sources (snd (GetNextMinibatch env cfg source mbSize rank workers dev w2)) source
         = sources (snd (GetNextMinibatch env cfg source mbSize rank workers dev w)) source"
  using assms by (simp_all add: GetNextMinibatch_def Let_def split: prod.splits)

lemma CrossValidate_loop_frame:
  fixes env :: "('t, 's, 'h, 'd :: {zero, plus, times, inverse}) Env"
    and w :: "('t, 's, 'h) World"
  assumes "CrossValidate_loop env cfg source dev st w = Some (res, w1)"
  shows "(\<forall>p. p \<noteq> source \<longrightarrow> sources w1 p = sources w p)
       \<and> hooks w1 = hooks w \<and> storage w1 = storage w"
proof -
  have "(\<forall>p. p \<noteq> source \<longrightarrow> sources (snd (res, w1)) p = sources w p)
       \<and> hooks (snd (res, w1)) = hooks w \<and> storage (snd (res, w1)) = storage w"
  proof (rule CrossValidate_loop.raw_induct [where P = "\<lambda>env cfg source dev st w y.
           (\<forall>p. p \<noteq> source \<longrightarrow> sources (snd y) p = sources w p)
           \<and> hooks (snd y) = hooks w \<and> storage (snd y) = storage w", OF _ assms])
    fix loop :: "('t, 's, 'h, 'd) Env \<Rightarrow> SessionConfig \<Rightarrow> nat \<Rightarrow> nat \<Rightarrow>
                 'd \<times> size_t \<times> size_t \<times> size_t \<Rightarrow> ('t, 's, 'h) World \<Rightarrow>
                 (('d \<times> size_t \<times> size_t) \<times> ('t, 's, 'h) World) option"
    fix env cfg source dev st w y
    assume ih: "\<And>env cfg source dev st w y. loop env cfg source dev st w = Some y \<Longrightarrow>
           (\<forall>p. p \<noteq> source \<longrightarrow> sources (snd y) p = sources w p)
           \<and> hooks (snd y) = hooks w \<and> storage (snd y) = storage w"
    assume body: "(case st of (accumulatedError, totalNumberOfSamples, numberOfMinibatches, sampleCount) \<Rightarrow>
         case GetCrossValidationMinibatch env cfg source
              (m_crossValidationSchedule cfg sampleCount) dev w of
         (minibatch, w1) \<Rightarrow>
           if minibatch = []
           then Some ((accumulatedError, totalNumberOfSamples, numberOfMinibatches), w1)
           else case TestMinibatch env minibatch dev (trainer w1) of
                ((error, sampleCount'), t') \<Rightarrow>
                  loop env cfg source dev
                   (accumulatedError + error * double_of env sampleCount',
                    totalNumberOfSamples + sampleCount',
                    numberOfMinibatches + 1, sampleCount')
                   (w1\<lparr>trainer := t'\<rparr>)) = Some y"
    obtain acc tot n sc where st: "st = (acc, tot, n, sc)" by (cases st)
    obtain mb v where g: "GetCrossValidationMinibatch env cfg source
              (m_crossValidationSchedule cfg sc) dev w = (mb, v)"
      by (cases "GetCrossValidationMinibatch env cfg source
              (m_crossValidationSchedule cfg sc) dev w")
    have fr: "(\<forall>p. p \<noteq> source \<longrightarrow> sources v p = sources w p)
              \<and> hooks v = hooks w \<and> storage v = storage w"
      using g GetNextMinibatch_frame [where env = env and cfg = cfg and source = source
          and mbSize = "m_crossValidationSchedule cfg sc" and rank = 0 and workers = 1
          and dev = dev and w = w]
      by (simp add: GetCrossValidationMinibatch_def)
    show "(\<forall>p. p \<noteq> source \<longrightarrow> sources (snd y) p = sources w p)
           \<and> hooks (snd y) = hooks w \<and> storage (snd y) = storage w"
    proof (cases "mb = []")
      case True
      with body st g fr show ?thesis by auto
    next
      case False
      obtain err sc' t' where t: "TestMinibatch env mb dev (trainer v) = ((err, sc'), t')"
        by (metis prod.exhaust)
      from body st g False t have
        "loop env cfg source dev (acc + err * double_of env sc', tot + sc', n + 1, sc')
           (v \<lparr> trainer := t' \<rparr>) = Some y"
        by simp
      from ih [OF this] fr show ?thesis by simp
    qed
  qed
  then show ?thesis by simp
qed

lemma CrossValidate_loop_parameters:
  fixes env :: "('t, 's, 'h, 'd :: {zero, plus, times, inverse}) Env"
    and w :: "('t, 's, 'h) World"
    and par :: "'t \<Rightarrow> 'p"
  assumes "CrossValidate_loop env cfg source dev st w = Some (res, w1)"
      and "\<forall>mb d t. par (snd (TestMinibatch env mb d t)) = par t"
  shows "par (trainer w1) = par (trainer w)"
proof -
  have "(\<forall>mb d t. par (snd (TestMinibatch env mb d t)) = par t) \<longrightarrow>
        par (trainer (snd (res, w1))) = par (trainer w)"
  proof (rule CrossValidate_loop.raw_induct [where P = "\<lambda>env cfg source dev st w y.
           (\<forall>mb d t. par (snd (TestMinibatch env mb d t)) = par t) \<longrightarrow>
           par (trainer (snd y)) = par (trainer w)", OF _ assms(1)])
    fix loop :: "('t, 's, 'h, 'd) Env \<Rightarrow> SessionConfig \<Rightarrow> nat \<Rightarrow> nat \<Rightarrow>
                 'd \<times> size_t \<times> size_t \<times> size_t \<Rightarrow> ('t, 's, 'h) World \<Rightarrow>
                 (('d \<times> size_t \<times> size_t) \<times> ('t, 's, 'h) World) option"
    fix env cfg source dev st w y
    assume ih: "\<And>env cfg source dev st w y. loop env cfg source dev st w = Some y \<Longrightarrow>
           (\<forall>mb d t. par (snd (TestMinibatch env mb d t)) = par t) \<longrightarrow>
           par (trainer (snd y)) = par (trainer w)"
    assume body: "(case st of (accumulatedError, totalNumberOfSamples, numberOfMinibatches, sampleCount) \<Rightarrow>
         case GetCrossValidationMinibatch env cfg source
              (m_crossValidationSchedule cfg sampleCount) dev w of
         (minibatch, w1) \<Rightarrow>
           if minibatch = []
           then Some ((accumulatedError, totalNumberOfSamples, numberOfMinibatches), w1)
           else case TestMinibatch env minibatch dev (trainer w1) of
                ((error, sampleCount'), t') \<Rightarrow>
                  loop env cfg source dev
                   (accumulatedError + error * double_of env sampleCount',
                    totalNumberOfSamples + sampleCount',
                    numberOfMinibatches + 1, sampleCount')
                   (w1\<lparr>trainer := t'\<rparr>)) = Some y"
    show "(\<forall>mb d t. par (snd (TestMinibatch env mb d t)) = par t) \<longrightarrow>
           par (trainer (snd y)) = par (trainer w)"
    proof
      assume P: "\<forall>mb d t. par (snd (TestMinibatch env mb d t)) = par t"
      obtain acc tot n sc where st: "st = (acc, tot, n, sc)" by (cases st)
      obtain mb v where g: "GetCrossValidationMinibatch env cfg source
                (m_crossValidationSchedule cfg sc) dev w = (mb, v)"
        by (cases "GetCrossValidationMinibatch env cfg source
                (m_crossValidationSchedule cfg sc) dev w")
      have fr: "trainer v = trainer w"
        using g GetNextMinibatch_frame(1) [where env = env and cfg = cfg and source = source
            and mbSize = "m_crossValidationSchedule cfg sc" and rank = 0 and workers = 1
            and dev = dev and w = w]
        by (simp add: GetCrossValidationMinibatch_def)
      show "par (trainer (snd y)) = par (trainer w)"
      proof (cases "mb = []")
        case True
        with body st g fr show ?thesis by auto
      next
        case False
        obtain err sc' t' where t: "TestMinibatch env mb dev (trainer v) = ((err, sc'), t')"
          by (metis prod.exhaust)
        from body st g False t have
          "loop env cfg source dev (acc + err * double_of env sc', tot + sc', n + 1, sc')
             (v \<lparr> trainer := t' \<rparr>) = Some y"
          by simp
        from ih [OF this] P have "par (trainer (snd y)) = par t'" by simp
        also have "par t' = par (trainer v)"
          using P [rule_format, of mb dev "trainer v"] t by simp
        finally show ?thesis using fr by simp
      qed
    qed
  qed
  with assms(2) show ?thesis by simp
qed

lemma CrossValidate_loop_repeatable:
  fixes env :: "('t, 's, 'h, 'd :: {zero, plus, times, inverse}) Env"
    and w w2 :: "('t, 's, 'h) World"
    and par :: "'t \<Rightarrow> 'p"
  assumes "CrossValidate_loop env cfg source dev st w = Some (res, w1)"
      and "\<forall>mb d t t'. par t = par t' \<longrightarrow>
             fst (TestMinibatch env mb d t) = fst (TestMinibatch env mb d t')"
      and "\<forall>mb d t. par (snd (TestMinibatch env mb d t)) = par t"
      and "sources w2 source = sources w source"
      and "par (trainer w2) = par (trainer w)"
  shows "\<exists>w3. CrossValidate_loop env cfg source dev st w2 = Some (res, w3)
            \<and> sources w3 source = sources w1 source"
proof -
  have "(\<forall>mb d t t'. par t = par t' \<longrightarrow>
             fst (TestMinibatch env mb d t) = fst (TestMinibatch env mb d t')) \<longrightarrow>
        (\<forall>mb d t. par (snd (TestMinibatch env mb d t)) = par t) \<longrightarrow>
        (\<forall>w2 :: ('t, 's, 'h) World.
           sources w2 source = sources w source \<longrightarrow> par (trainer w2) = par (trainer w) \<longrightarrow>
           (\<exists>w3. CrossValidate_loop env cfg source dev st w2 = Some (fst (res, w1), w3)
                \<and> sources w3 source = sources (snd (res, w1)) source))"
  proof (rule CrossValidate_loop.raw_induct [where P = "\<lambda>env cfg source dev st w y.
        (\<forall>mb d t t'. par t = par t' \<longrightarrow>
             fst (TestMinibatch env mb d t) = fst (TestMinibatch env mb d t')) \<longrightarrow>
        (\<forall>mb d t. par (snd (TestMinibatch env mb d t)) = par t) \<longrightarrow>
        (\<forall>w2 :: ('t, 's, 'h) World.
           sources w2 source = sources w source \<longrightarrow> par (trainer w2) = par (trainer w) \<longrightarrow>
           (\<exists>w3. CrossValidate_loop env cfg source dev st w2 = Some (fst y, w3)
                \<and> sources w3 source = sources (snd y) source))", OF _ assms(1)])
    fix loop :: "('t, 's, 'h, 'd) Env \<Rightarrow> SessionConfig \<Rightarrow> nat \<Rightarrow> nat \<Rightarrow>
                 'd \<times> size_t \<times> size_t \<times> size_t \<Rightarrow> ('t, 's, 'h) World \<Rightarrow>
                 (('d \<times> size_t \<times> size_t) \<times> ('t, 's, 'h) World) option"
    fix env cfg source dev st w y
    assume ih: "\<And>env cfg source dev st w y. loop env cfg source dev st w = Some y \<Longrightarrow>
        (\<forall>mb d t t'. par t = par t' \<longrightarrow>
             fst (TestMinibatch env mb d t) = fst (TestMinibatch env mb d t')) \<longrightarrow>
        (\<forall>mb d t. par (snd (TestMinibatch env mb d t)) = par t) \<longrightarrow>
        (\<forall>w2 :: ('t, 's, 'h) World.
           sources w2 source = sources w source \<longrightarrow> par (trainer w2) = par (trainer w) \<longrightarrow>
           (\<exists>w3. CrossValidate_loop env cfg source dev st w2 = Some (fst y, w3)
                \<and> sources w3 source = sources (snd y) source))"
    assume body: "(case st of (accumulatedError, totalNumberOfSamples, numberOfMinibatches, sampleCount) \<Rightarrow>
         case GetCrossValidationMinibatch env cfg source
              (m_crossValidationSchedule cfg sampleCount) dev w of
         (minibatch, w1) \<Rightarrow>
           if minibatch = []
           then Some ((accumulatedError, totalNumberOfSamples, numberOfMinibatches), w1)
           else case TestMinibatch env minibatch dev (trainer w1) of
                ((error, sampleCount'), t') \<Rightarrow>
                  loop env cfg source dev
                   (accumulatedError + error * double_of env sampleCount',
                    totalNumberOfSamples + sampleCount',
                    numberOfMinibatches + 1, sampleCount')
                   (w1\<lparr>trainer := t'\<rparr>)) = Some y"
    show "(\<forall>mb d t t'. par t = par t' \<longrightarrow>
             fst (TestMinibatch env mb d t) = fst (TestMinibatch env mb d t')) \<longrightarrow>
        (\<forall>mb d t. par (snd (TestMinibatch env mb d t)) = par t) \<longrightarrow>
        (\<forall>w2 :: ('t, 's, 'h) World.
           sources w2 source = sources w source \<longrightarrow> par (trainer w2) = par (trainer w) \<longrightarrow>
           (\<exists>w3. CrossValidate_loop env cfg source dev st w2 = Some (fst y, w3)
                \<and> sources w3 source = sources (snd y) source))"
    proof (intro impI allI)
      fix w2 :: "('t, 's, 'h) World"
      assume D: "\<forall>mb d t t'. par t = par t' \<longrightarrow>
             fst (TestMinibatch env mb d t) = fst (TestMinibatch env mb d t')"
        and P: "\<forall>mb d t. par (snd (TestMinibatch env mb d t)) = par t"
        and eq: "sources w2 source = sources w source"
        and pq: "par (trainer w2) = par (trainer w)"
      obtain acc tot n sc where st: "st = (acc, tot, n, sc)" by (cases st)
      let ?sz = "m_crossValidationSchedule cfg sc"
      obtain mb v where g: "GetNextMinibatch env cfg source ?sz 0 1 dev w = (mb, v)"
        by (cases "GetNextMinibatch env cfg source ?sz 0 1 dev w")
      obtain mb2 v2 where g2: "GetNextMinibatch env cfg source ?sz 0 1 dev w2 = (mb2, v2)"
        by (cases "GetNextMinibatch env cfg source ?sz 0 1 dev w2")
      from GetNextMinibatch_source [OF eq, of env cfg ?sz 0 1 dev] g g2
      have mb2: "mb2 = mb" and v2: "sources v2 source = sources v source"
        by simp_all
      have tv: "trainer v = trainer w"
        using g GetNextMinibatch_frame(1) [of env cfg source ?sz 0 1 dev w] by simp
      have tv2: "trainer v2 = trainer w2"
        using g2 GetNextMinibatch_frame(1) [of env cfg source ?sz 0 1 dev w2] by simp
      show "\<exists>w3. CrossValidate_loop env cfg source dev st w2 = Some (fst y, w3)
                \<and> sources w3 source = sources (snd y) source"
      proof (cases "mb = []")
        case True
        with body st g have y: "y = ((acc, tot, n), v)"
          by (simp add: GetCrossValidationMinibatch_def)
        have "CrossValidate_loop env cfg source dev st w2 = Some ((acc, tot, n), v2)"
          using True mb2 g2 st
          by (subst CrossValidate_loop.simps) (simp add: GetCrossValidationMinibatch_def)
        with y v2 show ?thesis by simp
      next
        case False
        obtain err sc' t' where t: "TestMinibatch env mb dev (trainer v) = ((err, sc'), t')"
          by (metis prod.exhaust)
        obtain r2 t2' where t2: "TestMinibatch env mb dev (trainer v2) = (r2, t2')"
          by (cases "TestMinibatch env mb dev (trainer v2)")
        have pv: "par (trainer v2) = par (trainer v)"
          using pq tv tv2 by simp
        have r2: "r2 = (err, sc')"
          using D [rule_format, of "trainer v2" "trainer v" mb dev] pv t t2 by simp
        have pt: "par t2' = par t'"
          using P [rule_format, of mb dev "trainer v2"] P [rule_format, of mb dev "trainer v"]
            t t2 pv by simp
        let ?st' = "(acc + err * double_of env sc', tot + sc', n + 1, sc')"
        from body st g False t have
          l: "loop env cfg source dev ?st' (v \<lparr> trainer := t' \<rparr>) = Some y"
          by (simp add: GetCrossValidationMinibatch_def)
        have e1: "sources (v2 \<lparr> trainer := t2' \<rparr>) source = sources (v \<lparr> trainer := t' \<rparr>) source"
          using v2 by simp
        have e2: "par (trainer (v2 \<lparr> trainer := t2' \<rparr>)) = par (trainer (v \<lparr> trainer := t' \<rparr>))"
          using pt by simp
        from ih [OF l, THEN mp, OF D, THEN mp, OF P, rule_format, OF e1 e2] obtain w3 where
          w3: "CrossValidate_loop env cfg source dev ?st' (v2 \<lparr> trainer := t2' \<rparr>) = Some (fst y, w3)"
          and s3: "sources w3 source = sources (snd y) source"
          by (elim exE conjE)
        have "CrossValidate_loop env cfg source dev st w2 = Some (fst y, w3)"
          using False mb2 g2 st t2 r2 w3
          by (subst CrossValidate_loop.simps) (simp add: GetCrossValidationMinibatch_def)
        with s3 show ?thesis by blast
      qed
    qed
  qed
  from this [THEN mp, OF assms(2), THEN mp, OF assms(3), rule_format, OF assms(4) assms(5)]
  show ?thesis by simp
qed

lemma CrossValidate_pass_Some:
  fixes env :: "('t, 's, 'h, 'd :: {zero, plus, times, inverse}) Env"
    and w :: "('t, 's, 'h) World"
  assumes "CrossValidate_pass env cfg source dev w = Some (m, w3)"
  shows "\<exists>acc tot n w1.
           CrossValidate_loop env cfg source dev (0, 0, 0, 0) w = Some ((acc, tot, n), w1)
         \<and> m = (acc / double_of env tot, tot, n)
         \<and> sources w3 = (sources w1)(source :=
               Source_RestoreFromCheckpoint env (Source_GetCheckpointState env (sources w source))
                 (sources w1 source))
         \<and> hooks w3 = hooks w1 \<and> storage w3 = storage w1"
  using assms
  by (auto simp: CrossValidate_pass_def Let_def split: option.splits)

lemma CrossValidate_Some:
  fixes env :: "('t, 's, 'h, 'd :: {zero, plus, times, inverse}) Env"
    and w :: "('t, 's, 'h) World"
  assumes "m_crossValidationSource cfg = Some source"
      and "CrossValidate env cfg i dev w = Some (r, w')"
  shows "\<exists>m w3. CrossValidate_pass env cfg source dev w = Some (m, w3)
         \<and> r = fst (OnCrossValidationEnd env i (fst m) (fst (snd m)) (snd (snd m)) (hooks w3))
         \<and> sources w' = sources w3"
  using assms
  by (auto simp: CrossValidate_def split: option.splits prod.splits)

lemma CrossValidate_trainer:
  fixes env :: "('t, 's, 'h, 'd :: {zero, plus, times, inverse}) Env"
    and w :: "('t, 's, 'h) World"
  assumes "m_crossValidationSource cfg = Some source"
      and "CrossValidate env cfg i dev w = Some (r, w')"
  shows "\<exists>res w1. CrossValidate_loop env cfg source dev (0, 0, 0, 0) w = Some (res, w1)
           \<and> trainer w' = SummarizeTestProgress env (trainer w1)"
  using assms
  by (auto simp: CrossValidate_def CrossValidate_pass_def Let_def
           split: option.splits prod.splits)

text \<open>
  C7, as stated, fails in its second half. With the source of the small environment, whose
  restore brings back the state the checkpoint state was taken from, and a trainer whose
  \<^verbatim>\<open>TestMinibatch\<close> returns the number of evaluations made so far, the cross-validation
  leaves the source at its 35 samples, and the validation pass computes the average error
  9/7 before the cross-validation and 37/7 right after it.
\<close>

theorem C7_counterexample:
  "(\<forall>s s'. Source_RestoreFromCheckpoint counting_env
               (Source_GetCheckpointState counting_env s) s' = s)
   \<and> (case CrossValidate counting_env example_config_validation 0 0 (toy_world 35) of
        None \<Rightarrow> False
      | Some (r, w') \<Rightarrow>
          sources w' 1 = sources (toy_world 35) 1
          \<and> (case CrossValidate_pass counting_env example_config_validation 1 0 (toy_world 35) of
               None \<Rightarrow> False
             | Some (m1, w1) \<Rightarrow>
                 (case CrossValidate_pass counting_env example_config_validation 1 0 w' of
                    None \<Rightarrow> False
                  | Some (m2, w2) \<Rightarrow>
                      m1 = (9 / 7, 35, 4) \<and> m2 = (37 / 7, 35, 4) \<and> fst m1 \<noteq> fst m2)))"
proof
  show "\<forall>s s'. Source_RestoreFromCheckpoint counting_env
               (Source_GetCheckpointState counting_env s) s' = s"
    by (simp add: counting_env_def toy_env_def)
next
  show "(case CrossValidate counting_env example_config_validation 0 0 (toy_world 35) of
        None \<Rightarrow> False
      | Some (r, w') \<Rightarrow>
          sources w' 1 = sources (toy_world 35) 1
          \<and> (case CrossValidate_pass counting_env example_config_validation 1 0 (toy_world 35) of
               None \<Rightarrow> False
             | Some (m1, w1) \<Rightarrow>
                 (case CrossValidate_pass counting_env example_config_validation 1 0 w' of
                    None \<Rightarrow> False
                  | Some (m2, w2) \<Rightarrow>
                      m1 = (9 / 7, 35, 4) \<and> m2 = (37 / 7, 35, 4) \<and> fst m1 \<noteq> fst m2)))"
    by code_simp
qed

text \<open>
  C7, amended. A cross-validation with a source that returns leaves that source in the
  state obtained by restoring, into the state the pass ended in, the checkpoint state taken
  before the pass, and leaves every other source as it was. For a source whose restore
  brings back the state the checkpoint state was taken from, all sources are after the
  cross-validation as before it. If moreover the error that \<^verbatim>\<open>TestMinibatch\<close> returns
  depends only on the minibatch, the device and a part \<open>par\<close> of the state of the trainer
  (its parameters, say) that \<^verbatim>\<open>TestMinibatch\<close> and \<^verbatim>\<open>SummarizeTestProgress\<close> leave unchanged,
  then a second cross-validation right after the first returns, its validation pass
  computes the same average error, number of samples and number of minibatches as the
  first, these are the values both hooks are called with, and all sources are again as
  before.
\<close>

theorem C7_cross_validation_restores_source:
  fixes env :: "('t, 's, 'h, 'd :: {zero, plus, times, inverse}) Env"
    and w :: "('t, 's, 'h) World"
    and par :: "'t \<Rightarrow> 'p"
  assumes "m_crossValidationSource cfg = Some source"
      and "CrossValidate env cfg i dev w = Some (r, w')"
  shows "(\<exists>s. sources w' source =
             Source_RestoreFromCheckpoint env (Source_GetCheckpointState env (sources w source)) s)
       \<and> (\<forall>p. p \<noteq> source \<longrightarrow> sources w' p = sources w p)
       \<and> ((\<forall>s s'. Source_RestoreFromCheckpoint env (Source_GetCheckpointState env s) s' = s) \<longrightarrow>
            sources w' = sources w
            \<and> ((\<forall>mb d t t'. par t = par t' \<longrightarrow>
                    fst (TestMinibatch env mb d t) = fst (TestMinibatch env mb d t'))
                \<and> (\<forall>mb d t. par (snd (TestMinibatch env mb d t)) = par t)
                \<and> (\<forall>t. par (SummarizeTestProgress env t) = par t) \<longrightarrow>
                 (\<exists>m w1 w2 r2 w''.
                     CrossValidate_pass env cfg source dev w = Some (m, w1)
                   \<and> CrossValidate_pass env cfg source dev w' = Some (m, w2)
                   \<and> r = fst (OnCrossValidationEnd env i (fst m) (fst (snd m)) (snd (snd m))
                                (hooks w1))
                   \<and> CrossValidate env cfg j dev w' = Some (r2, w'')
                   \<and> r2 = fst (OnCrossValidationEnd env j (fst m) (fst (snd m)) (snd (snd m))
                                 (hooks w2))
                   \<and> sources w'' = sources w)))"
proof -
  from CrossValidate_Some [OF assms] obtain m w3 where
    p: "CrossValidate_pass env cfg source dev w = Some (m, w3)"
    and r: "r = fst (OnCrossValidationEnd env i (fst m) (fst (snd m)) (snd (snd m)) (hooks w3))"
    and s': "sources w' = sources w3"
    by blast
  from CrossValidate_pass_Some [OF p] obtain acc tot n w1 where
    l: "CrossValidate_loop env cfg source dev (0, 0, 0, 0) w = Some ((acc, tot, n), w1)"
    and m: "m = (acc / double_of env tot, tot, n)"
    and s3: "sources w3 = (sources w1)(source :=
               Source_RestoreFromCheckpoint env (Source_GetCheckpointState env (sources w source))
                 (sources w1 source))"
    by blast
  from CrossValidate_trainer [OF assms] l have
    tw: "trainer w' = SummarizeTestProgress env (trainer w1)"
    by auto
  note fr = CrossValidate_loop_frame [OF l]
  have a: "\<exists>s. sources w' source =
             Source_RestoreFromCheckpoint env (Source_GetCheckpointState env (sources w source)) s"
    using s' s3 by auto
  have b: "\<forall>p. p \<noteq> source \<longrightarrow> sources w' p = sources w p"
    using s' s3 fr by simp
  have c: "sources w' = sources w
            \<and> ((\<forall>mb d t t'. par t = par t' \<longrightarrow>
                    fst (TestMinibatch env mb d t) = fst (TestMinibatch env mb d t'))
                \<and> (\<forall>mb d t. par (snd (TestMinibatch env mb d t)) = par t)
                \<and> (\<forall>t. par (SummarizeTestProgress env t) = par t) \<longrightarrow>
                 (\<exists>m w1 w2 r2 w''.
                     CrossValidate_pass env cfg source dev w = Some (m, w1)
                   \<and> CrossValidate_pass env cfg source dev w' = Some (m, w2)
                   \<and> r = fst (OnCrossValidationEnd env i (fst m) (fst (snd m)) (snd (snd m))
                                (hooks w1))
                   \<and> CrossValidate env cfg j dev w' = Some (r2, w'')
                   \<and> r2 = fst (OnCrossValidationEnd env j (fst m) (fst (snd m)) (snd (snd m))
                                 (hooks w2))
                   \<and> sources w'' = sources w))"
    if L: "\<forall>s s'. Source_RestoreFromCheckpoint env (Source_GetCheckpointState env s) s' = s"
  proof -
    have same: "sources w' = sources w"
    proof
      fix p show "sources w' p = sources w p"
        using b s' s3 L by (cases "p = source") simp_all
    qed
    have "\<exists>m w1 w2 r2 w''.
                     CrossValidate_pass env cfg source dev w = Some (m, w1)
                   \<and> CrossValidate_pass env cfg source dev w' = Some (m, w2)
                   \<and> r = fst (OnCrossValidationEnd env i (fst m) (fst (snd m)) (snd (snd m))
                                (hooks w1))
                   \<and> CrossValidate env cfg j dev w' = Some (r2, w'')
                   \<and> r2 = fst (OnCrossValidationEnd env j (fst m) (fst (snd m)) (snd (snd m))
                                 (hooks w2))
                   \<and> sources w'' = sources w"
      if H: "(\<forall>mb d t t'. par t = par t' \<longrightarrow>
                    fst (TestMinibatch env mb d t) = fst (TestMinibatch env mb d t'))
                \<and> (\<forall>mb d t. par (snd (TestMinibatch env mb d t)) = par t)
                \<and> (\<forall>t. par (SummarizeTestProgress env t) = par t)"
    proof -
      from H have P1: "\<forall>mb d t t'. par t = par t' \<longrightarrow>
                    fst (TestMinibatch env mb d t) = fst (TestMinibatch env mb d t')"
        by (rule conjunct1)
      from H have P2: "\<forall>mb d t. par (snd (TestMinibatch env mb d t)) = par t"
        by (rule conjunct2 [THEN conjunct1])
      from H have P3: "\<forall>t. par (SummarizeTestProgress env t) = par t"
        by (rule conjunct2 [THEN conjunct2])
      have se: "sources w' source = sources w source" using same by simp
      have "par (trainer w') = par (trainer w1)"
        unfolding tw by (rule P3 [rule_format])
      also have "par (trainer w1) = par (trainer w)"
        by (rule CrossValidate_loop_parameters [OF l P2])
      finally have pe: "par (trainer w') = par (trainer w)" .
      from CrossValidate_loop_repeatable [OF l P1 P2 se pe] obtain w4 where
        l': "CrossValidate_loop env cfg source dev (0, 0, 0, 0) w' = Some ((acc, tot, n), w4)"
        by blast
      obtain w2 where p2: "CrossValidate_pass env cfg source dev w' = Some (m, w2)"
        using l' m by (simp add: CrossValidate_pass_def Let_def)
      from CrossValidate_pass_Some [OF p2] l' have
        s2: "sources w2 = (sources w4)(source :=
               Source_RestoreFromCheckpoint env (Source_GetCheckpointState env (sources w' source))
                 (sources w4 source))"
        by auto
      note fr' = CrossValidate_loop_frame [OF l']
      have same2: "sources w2 = sources w'"
      proof
        fix p show "sources w2 p = sources w' p"
          using s2 fr' L by (cases "p = source") simp_all
      qed
      obtain r2 h2 where
        h: "OnCrossValidationEnd env j (fst m) (fst (snd m)) (snd (snd m)) (hooks w2) = (r2, h2)"
        by (cases "OnCrossValidationEnd env j (fst m) (fst (snd m)) (snd (snd m)) (hooks w2)")
      have c2: "CrossValidate env cfg j dev w' = Some (r2, w2 \<lparr> hooks := h2 \<rparr>)"
        using assms(1) p2 h by (cases m) (simp add: CrossValidate_def)
      have "CrossValidate_pass env cfg source dev w = Some (m, w3)
                   \<and> CrossValidate_pass env cfg source dev w' = Some (m, w2)
                   \<and> r = fst (OnCrossValidationEnd env i (fst m) (fst (snd m)) (snd (snd m))
                                (hooks w3))
                   \<and> CrossValidate env cfg j dev w' = Some (r2, w2 \<lparr> hooks := h2 \<rparr>)
                   \<and> r2 = fst (OnCrossValidationEnd env j (fst m) (fst (snd m)) (snd (snd m))
                                 (hooks w2))
                   \<and> sources (w2 \<lparr> hooks := h2 \<rparr>) = sources w"
        using p p2 r c2 h same same2 by simp
      then show ?thesis by blast
    qed
    with same show ?thesis by blast
  qed
  from a b c show ?thesis by blast
qed

lemma example_validation_returns:
  "(case CrossValidate param_env example_config_validation 0 0
           ((toy_world 35) \<lparr> trainer := (7, 0) \<rparr>) of
      None \<Rightarrow> False
    | Some (r, w') \<Rightarrow> r \<and> sources w' 1 = 35 \<and> trainer w' = (7, 4))"
  by code_simp

lemma example_validation_pass:
  "(case CrossValidate_pass param_env example_config_validation 1 0
           ((toy_world 35) \<lparr> trainer := (7, 0) \<rparr>) of
      None \<Rightarrow> False
    | Some (m, w') \<Rightarrow> m = (7, 35, 4))"
  by code_simp

theorem C7_cross_validation_restores_source_witness:
  "\<exists>r w' m w1 w2 r2 w''.
     CrossValidate param_env example_config_validation 0 0
       ((toy_world 35) \<lparr> trainer := (7, 0) \<rparr>) = Some (r, w')
     \<and> sources w' = sources (toy_world 35)
     \<and> CrossValidate_pass param_env example_config_validation 1 0
         ((toy_world 35) \<lparr> trainer := (7, 0) \<rparr>) = Some (m, w1)
     \<and> CrossValidate_pass param_env example_config_validation 1 0 w' = Some (m, w2)
     \<and> m = (7, 35, 4)
     \<and> trainer w' \<noteq> trainer ((toy_world 35) \<lparr> trainer := (7, 0) \<rparr>)
     \<and> CrossValidate param_env example_config_validation 1 0 w' = Some (r2, w'')
     \<and> sources w'' = sources (toy_world 35)
     \<and> fst (TestMinibatch param_env [] 0 (0, 0)) \<noteq> fst (TestMinibatch param_env [] 0 (1, 0))"
proof -
  let ?env = "param_env"
  let ?cfg = "example_config_validation"
  let ?w = "(toy_world 35) \<lparr> trainer := (7, 0) \<rparr>"
  obtain r w' where c: "CrossValidate ?env ?cfg 0 0 ?w = Some (r, w')"
    and tw: "trainer w' = (7, 4)"
    using example_validation_returns
    by (auto split: option.splits)
  have s: "m_crossValidationSource ?cfg = Some 1"
    by (simp add: example_config_validation_def)
  have L: "\<forall>s s'. Source_RestoreFromCheckpoint ?env (Source_GetCheckpointState ?env s) s' = s"
    by (simp add: param_env_def toy_env_def)
  have H: "(\<forall>mb d t t'. fst t = fst t' \<longrightarrow>
                    fst (TestMinibatch ?env mb d t) = fst (TestMinibatch ?env mb d t'))
                \<and> (\<forall>mb d t. fst (snd (TestMinibatch ?env mb d t)) = fst t)
                \<and> (\<forall>t. fst (SummarizeTestProgress ?env t) = fst t)"
    by (simp add: param_env_def toy_env_def)
  from C7_cross_validation_restores_source [OF s c, where par = fst and j = 1] L H
  obtain m w1 w2 r2 w'' where
    same: "sources w' = sources ?w"
    and p1: "CrossValidate_pass ?env ?cfg 1 0 ?w = Some (m, w1)"
    and p2: "CrossValidate_pass ?env ?cfg 1 0 w' = Some (m, w2)"
    and c2: "CrossValidate ?env ?cfg 1 0 w' = Some (r2, w'')"
    and same2: "sources w'' = sources ?w"
    by blast
  have m: "m = (7, 35, 4)"
    using example_validation_pass p1 by simp
  have d: "fst (TestMinibatch ?env [] 0 (0, 0)) \<noteq> fst (TestMinibatch ?env [] 0 (1, 0))"
    by (simp add: param_env_def toy_env_def)
  show ?thesis
    by (rule exI [of _ r], rule exI [of _ w'], rule exI [of _ m], rule exI [of _ w1],
        rule exI [of _ w2], rule exI [of _ r2], rule exI [of _ w''])
       (use c same p1 p2 m tw c2 same2 d in simp)
qed

end
